theory Spec2Isabelle
  imports Complex_Main
begin

section \<open>Numbers\<close>

text \<open>
  The program computes with JavaScript numbers. They are modelled as exact reals:
  all inputs are taken to be finite, and rounding error and overflow of the binary
  representation are not modelled. The only non-finite values the code can then produce
  come from a division by zero; where the source divides by a value that may be zero the
  model says so explicitly (type \<open>jsnum\<close> below).

  \<open>Math.round\<close> rounds to the nearest integer, a tie going towards plus infinity.
\<close>

definition Math_round :: "real \<Rightarrow> real" where
  "Math_round x = of_int \<lfloor>x + 1 / 2\<rfloor>"

section \<open>Target calculator (calculations.ts, generateDietPlan prologue)\<close>

datatype error =
    InvalidMacroSpec real   \<comment> \<open>\<open>Macro percentages must add up to 100%. Current total: ...\<close>\<close>
  | AttemptsExhausted nat   \<comment> \<open>\<open>AI failed to generate a diet plan ... after N attempts.\<close>\<close>

record exact_macros =
  proteinGrams :: real
  carbsGrams :: real
  fatGrams :: real
  proteinCalories :: real
  carbsCalories :: real
  fatCalories :: real
  totalCalories :: real

text \<open>
  \<open>calculateExactMacros\<close> has three stages: the guard on the sum of the percentages
  (lines 291-294), the three rounded calorie shares (lines 297-299), and everything
  computed from the shares (lines 302-326).

  The first two stages are where the binary arithmetic of the source can decide
  differently from exact arithmetic. The percentages 33.3, 33.3, 33.3 are exactly 0.1
  short of 100, but their sum is 99.89999999999999 in doubles and its distance from 100
  exceeds the double 0.1, so the source throws; the same happens at 10, 54.1, 35.8. The
  product \<open>2650 * (35 / 100)\<close> is 927.4999999999999 in doubles and is rounded to 927,
  where the exact product 927.5 rounds to 928. The exact guard and the exact shares of
  \<open>calculateExactMacros\<close> below therefore describe the source only away from these
  boundaries.

  The third stage is kept apart, as \<open>macrosFromCalories\<close>, with the three shares as
  arguments: it is the code of lines 302-326 for whichever whole numbers the three calls of
  \<open>Math.round\<close> have returned. From whole shares and a whole target of ordinary size,
  every later \<open>Math.round\<close> of the source has an argument that is either computed without
  error (a whole number times 2.5) or at least 0.05 away from a tie, far more than the error
  of the binary operations, so that the source returns the same final calories as
  \<open>macrosFromCalories\<close>. Beyond about \<open>10^15\<close> whole numbers are no longer exact in the
  binary representation, and this agreement is lost.
\<close>

definition macrosFromCalories :: "real \<Rightarrow> real \<Rightarrow> real \<Rightarrow> real \<Rightarrow> exact_macros" where
  "macrosFromCalories targetCalories proteinCalories0 carbsCalories0 fatCalories0 =
    (let proteinGrams0 = Math_round ((proteinCalories0 / 4) * 10) / 10;
         carbsGrams0 = Math_round ((carbsCalories0 / 4) * 10) / 10;
         fatGrams0 = Math_round ((fatCalories0 / 9) * 10) / 10;
         totalCalculatedCalories = proteinCalories0 + carbsCalories0 + fatCalories0;
         calorieDiscrepancy = targetCalories - totalCalculatedCalories;
         adjustedFatCalories = fatCalories0 + calorieDiscrepancy;
         adjustedFatGrams = Math_round ((adjustedFatCalories / 9) * 10) / 10;
         finalProteinCalories = Math_round (proteinGrams0 * 4);
         finalCarbsCalories = Math_round (carbsGrams0 * 4);
         finalFatCalories = Math_round (adjustedFatGrams * 9);
         finalTotalCalories = finalProteinCalories + finalCarbsCalories + finalFatCalories
     in \<lparr> proteinGrams = proteinGrams0, carbsGrams = carbsGrams0,
           fatGrams = adjustedFatGrams, proteinCalories = finalProteinCalories,
           carbsCalories = finalCarbsCalories, fatCalories = finalFatCalories,
           totalCalories = finalTotalCalories \<rparr>)"

definition calculateExactMacros :: "real \<Rightarrow> real \<Rightarrow> real \<Rightarrow> real \<Rightarrow> error + exact_macros" where
  "calculateExactMacros targetCalories proteinPercent carbsPercent fatPercent =
    (let totalPercent = proteinPercent + carbsPercent + fatPercent in
     if \<bar>totalPercent - 100\<bar> > 1 / 10 then Inl (InvalidMacroSpec totalPercent)
     else
       let proteinCalories0 = Math_round (targetCalories * (proteinPercent / 100));
           carbsCalories0 = Math_round (targetCalories * (carbsPercent / 100));
           fatCalories0 = Math_round (targetCalories * (fatPercent / 100))
       in Inr (macrosFromCalories targetCalories proteinCalories0 carbsCalories0 fatCalories0))"

text \<open>
  The prologue of \<open>generateDietPlan\<close> (lines 760-777) repeats the same computation inline,
  on \<open>targetCalories + (deficitSurplus || 0)\<close>, and is split in the same way:
  \<open>targetsFromCalories\<close> is the code of lines 767-777 on the three rounded shares. In both,
  the first estimate of the fat grams (\<open>fatGrams0\<close>) is computed and then superseded by the
  adjusted one.
\<close>

record diet_targets =
  adjustedTargetCalories :: real
  t_proteinGrams :: real
  t_carbsGrams :: real
  adjustedFatGrams :: real
  finalProteinCalories :: real
  finalCarbsCalories :: real
  finalFatCalories :: real
  finalTotalCalories :: real

definition targetsFromCalories :: "real \<Rightarrow> real \<Rightarrow> real \<Rightarrow> real \<Rightarrow> diet_targets" where
  "targetsFromCalories adjusted proteinCalories0 carbsCalories0 fatCalories0 =
    (let proteinGrams0 = Math_round ((proteinCalories0 / 4) * 10) / 10;
         carbsGrams0 = Math_round ((carbsCalories0 / 4) * 10) / 10;
         fatGrams0 = Math_round ((fatCalories0 / 9) * 10) / 10;
         totalCalculatedCalories = proteinCalories0 + carbsCalories0 + fatCalories0;
         calorieDiscrepancy = adjusted - totalCalculatedCalories;
         adjustedFatCalories = fatCalories0 + calorieDiscrepancy;
         adjustedFatGrams0 = Math_round ((adjustedFatCalories / 9) * 10) / 10;
         finalProteinCalories0 = Math_round (proteinGrams0 * 4);
         finalCarbsCalories0 = Math_round (carbsGrams0 * 4);
         finalFatCalories0 = Math_round (adjustedFatGrams0 * 9)
     in \<lparr> adjustedTargetCalories = adjusted, t_proteinGrams = proteinGrams0,
           t_carbsGrams = carbsGrams0, adjustedFatGrams = adjustedFatGrams0,
           finalProteinCalories = finalProteinCalories0,
           finalCarbsCalories = finalCarbsCalories0,
           finalFatCalories = finalFatCalories0,
           finalTotalCalories =
             finalProteinCalories0 + finalCarbsCalories0 + finalFatCalories0 \<rparr>)"

definition computeTargets :: "real \<Rightarrow> real \<Rightarrow> real \<Rightarrow> real \<Rightarrow> real \<Rightarrow> error + diet_targets" where
  "computeTargets targetCalories deficitSurplus proteinPercent carbsPercent fatPercent =
    (let adjusted = targetCalories + deficitSurplus;
         totalMacroPercent = proteinPercent + carbsPercent + fatPercent in
     if \<bar>totalMacroPercent - 100\<bar> > 1 / 10 then Inl (InvalidMacroSpec totalMacroPercent)
     else
       let proteinCalories0 = Math_round (adjusted * (proteinPercent / 100));
           carbsCalories0 = Math_round (adjusted * (carbsPercent / 100));
           fatCalories0 = Math_round (adjusted * (fatPercent / 100))
       in Inr (targetsFromCalories adjusted proteinCalories0 carbsCalories0 fatCalories0))"




section \<open>Non-finite numbers\<close>

text \<open>
  Where the source divides by a value that can be zero, the result is a JavaScript number
  that may be \<open>Infinity\<close>, \<open>-Infinity\<close> or \<open>NaN\<close>. Finite values stay exact
  reals. A negative zero is not told apart from zero (the calorie sum that the validation
  divides by starts from \<open>+0\<close> and cannot become \<open>-0\<close>).
\<close>

datatype jsnum = Fin real | PosInf | NegInf | NaN

definition js_inf :: "real \<Rightarrow> jsnum" where
  \<comment> \<open>the infinity with the sign of \<open>s\<close>; no sign gives \<open>NaN\<close>\<close>
  "js_inf s = (if s > 0 then PosInf else if s < 0 then NegInf else NaN)"

fun js_neg :: "jsnum \<Rightarrow> jsnum" where
  "js_neg (Fin x) = Fin (- x)"
| "js_neg PosInf = NegInf"
| "js_neg NegInf = PosInf"
| "js_neg NaN = NaN"

fun js_plus :: "jsnum \<Rightarrow> jsnum \<Rightarrow> jsnum" where
  "js_plus NaN _ = NaN"
| "js_plus _ NaN = NaN"
| "js_plus (Fin x) (Fin y) = Fin (x + y)"
| "js_plus PosInf NegInf = NaN"
| "js_plus NegInf PosInf = NaN"
| "js_plus PosInf _ = PosInf"
| "js_plus _ PosInf = PosInf"
| "js_plus NegInf _ = NegInf"
| "js_plus _ NegInf = NegInf"

definition js_minus :: "jsnum \<Rightarrow> jsnum \<Rightarrow> jsnum" where
  "js_minus a b = js_plus a (js_neg b)"

fun js_times :: "jsnum \<Rightarrow> jsnum \<Rightarrow> jsnum" where
  "js_times NaN _ = NaN"
| "js_times _ NaN = NaN"
| "js_times (Fin x) (Fin y) = Fin (x * y)"
| "js_times (Fin x) PosInf = js_inf x"
| "js_times (Fin x) NegInf = js_inf (- x)"
| "js_times PosInf (Fin y) = js_inf y"
| "js_times NegInf (Fin y) = js_inf (- y)"
| "js_times PosInf PosInf = PosInf"
| "js_times NegInf NegInf = PosInf"
| "js_times PosInf NegInf = NegInf"
| "js_times NegInf PosInf = NegInf"

fun js_divide :: "jsnum \<Rightarrow> jsnum \<Rightarrow> jsnum" where
  "js_divide NaN _ = NaN"
| "js_divide _ NaN = NaN"
| "js_divide (Fin x) (Fin y) = (if y \<noteq> 0 then Fin (x / y) else js_inf x)"
| "js_divide (Fin x) _ = Fin 0"
| "js_divide PosInf (Fin y) = (if y \<ge> 0 then PosInf else NegInf)"
| "js_divide NegInf (Fin y) = (if y \<ge> 0 then NegInf else PosInf)"
| "js_divide _ _ = NaN"

fun js_round :: "jsnum \<Rightarrow> jsnum" where
  "js_round (Fin x) = Fin (Math_round x)"
| "js_round v = v"

fun js_abs :: "jsnum \<Rightarrow> jsnum" where
  "js_abs (Fin x) = Fin \<bar>x\<bar>"
| "js_abs NaN = NaN"
| "js_abs _ = PosInf"

fun js_gt :: "jsnum \<Rightarrow> jsnum \<Rightarrow> bool" where
  \<comment> \<open>\<open>a > b\<close>; every comparison with \<open>NaN\<close> is false\<close>
  "js_gt NaN _ = False"
| "js_gt _ NaN = False"
| "js_gt (Fin x) (Fin y) = (x > y)"
| "js_gt PosInf PosInf = False"
| "js_gt PosInf _ = True"
| "js_gt _ PosInf = False"
| "js_gt NegInf _ = False"
| "js_gt _ NegInf = True"

section \<open>Data model\<close>

text \<open>
  \<open>FoodItem\<close>, \<open>FoodEntry\<close> and \<open>Meal\<close> as declared in calculations.ts and the meal
  builder; fields that no modelled function reads are left out. An optional field is an
  \<open>option\<close>; the optional flag \<open>isAlternative\<close> is only ever tested for truthiness, so
  an absent flag is \<open>False\<close>. A quantity is a finite number, so \<open>!food.quantity\<close> is
  \<open>quantity food = 0\<close>. \<open>selectedFoods\<close> is the object mapping a food entry's id
  to its \<open>FoodItem\<close>.
\<close>

record serving_info =
  serving_weight_grams :: "real option"
  serving_qty :: "real option"
  serving_unit :: "string option"

record alt_measure =
  am_serving_weight :: real
  am_measure :: string
  am_seq :: real
  am_qty :: real

record FoodItem =
  name_en :: string
  calories_per_100g :: real
  protein_g_per_100g :: real
  carbs_g_per_100g :: real
  fat_g_per_100g :: real
  servingInfo :: "serving_info option"
  altMeasures :: "alt_measure list option"

record FoodEntry =
  entry_id :: string
  quantity :: real
  unit :: "string option"
  isAlternative :: bool
  parentId :: "string option"

record Meal =
  meal_id :: string
  meal_name :: string
  foods :: "FoodEntry list"

type_synonym selected_foods = "string \<rightharpoonup> FoodItem"

text \<open>Totals and targets are objects \<open>{calories, protein, carbs, fat}\<close>.\<close>

record macro_totals =
  calories :: real
  protein :: real
  carbs :: real
  fat :: real

definition zero_totals :: macro_totals where
  "zero_totals = \<lparr> calories = 0, protein = 0, carbs = 0, fat = 0 \<rparr>"

section \<open>Unit conversion (unitConversions.ts)\<close>

text \<open>
  Strings are byte strings; \<open>toLowerCase\<close> and \<open>trim\<close> are modelled on ASCII.
\<close>

definition toLowerChar :: "char \<Rightarrow> char" where
  "toLowerChar c = (let n = (of_char c :: nat) in
                    if 65 \<le> n \<and> n \<le> 90 then char_of (n + 32) else c)"

definition toLowerCase :: "string \<Rightarrow> string" where
  "toLowerCase s = map toLowerChar s"

definition isWhitespace :: "char \<Rightarrow> bool" where
  "isWhitespace c = ((of_char c :: nat) \<in> {9, 10, 11, 12, 13, 32})"

definition trim :: "string \<Rightarrow> string" where
  "trim s = rev (dropWhile isWhitespace (rev (dropWhile isWhitespace s)))"

fun str_includes :: "string \<Rightarrow> string \<Rightarrow> bool" where
  \<comment> \<open>\<open>s.includes(t)\<close>: \<open>t\<close> occurs in \<open>s\<close> as a contiguous substring\<close>
  "str_includes [] t = (t = [])"
| "str_includes (c # cs) t = (take (length t) (c # cs) = t \<or> str_includes cs t)"

datatype unit_category = Weight | Volume | Piece

definition unitConversions :: "(string \<times> real \<times> unit_category) list" where
  "unitConversions =
    [(''g'', 1, Weight),
     (''gram'', 1, Weight),
     (''grams'', 1, Weight),
     (''kg'', 1000, Weight),
     (''kilogram'', 1000, Weight),
     (''oz'', 2835 / 100, Weight),
     (''ounce'', 2835 / 100, Weight),
     (''ounces'', 2835 / 100, Weight),
     (''lb'', 45359 / 100, Weight),
     (''lbs'', 45359 / 100, Weight),
     (''pound'', 45359 / 100, Weight),
     (''pounds'', 45359 / 100, Weight),
     (''cup'', 240, Volume),
     (''cups'', 240, Volume),
     (''tbsp'', 15, Volume),
     (''tablespoon'', 15, Volume),
     (''tablespoons'', 15, Volume),
     (''tsp'', 5, Volume),
     (''teaspoon'', 5, Volume),
     (''teaspoons'', 5, Volume),
     (''ml'', 1, Volume),
     (''milliliter'', 1, Volume),
     (''milliliters'', 1, Volume),
     (''l'', 1000, Volume),
     (''liter'', 1000, Volume),
     (''liters'', 1000, Volume),
     (''fl oz'', 30, Volume),
     (''fluid ounce'', 30, Volume),
     (''fluid ounces'', 30, Volume),
     (''pint'', 473, Volume),
     (''pints'', 473, Volume),
     (''quart'', 946, Volume),
     (''quarts'', 946, Volume),
     (''gallon'', 3785, Volume),
     (''gallons'', 3785, Volume),
     (''piece'', 0, Piece),
     (''pieces'', 0, Piece),
     (''slice'', 0, Piece),
     (''slices'', 0, Piece),
     (''serving'', 0, Piece),
     (''servings'', 0, Piece),
     (''item'', 0, Piece),
     (''items'', 0, Piece),
     (''medium'', 0, Piece),
     (''large'', 0, Piece),
     (''small'', 0, Piece),
     (''whole'', 0, Piece),
     (''half'', 0, Piece),
     (''quarter'', 0, Piece),
     (''meatball'', 0, Piece),
     (''meatballs'', 0, Piece),
     (''nugget'', 0, Piece),
     (''nuggets'', 0, Piece),
     (''strip'', 0, Piece),
     (''strips'', 0, Piece),
     (''patty'', 0, Piece),
     (''patties'', 0, Piece),
     (''fillet'', 0, Piece),
     (''fillets'', 0, Piece),
     (''breast'', 0, Piece),
     (''thigh'', 0, Piece),
     (''wing'', 0, Piece),
     (''wings'', 0, Piece),
     (''drumstick'', 0, Piece),
     (''drumsticks'', 0, Piece)]"

definition convertToGrams ::
  "real \<Rightarrow> string \<Rightarrow> real option \<Rightarrow> real option \<Rightarrow> string option \<Rightarrow> alt_measure list option \<Rightarrow> jsnum" where
  "convertToGrams quantity0 unit0 servingWeightGrams servingQty servingUnit altMeasures0 =
    (if quantity0 \<le> 0 then Fin 0
     else
       let normalizedUnit = trim (toLowerCase unit0);
           matchingMeasure =
             (case altMeasures0 of
                None \<Rightarrow> None
              | Some ms \<Rightarrow>
                  find (\<lambda>m. toLowerCase (am_measure m) = normalizedUnit
                            \<or> str_includes normalizedUnit (toLowerCase (am_measure m))) ms)
       in case matchingMeasure of
            Some m \<Rightarrow> js_times (Fin quantity0) (js_divide (Fin (am_serving_weight m)) (Fin (am_qty m)))
          | None \<Rightarrow>
             (let weight = (case servingWeightGrams of Some w \<Rightarrow> w | None \<Rightarrow> 0);
                  sqty = (case servingQty of Some q \<Rightarrow> q | None \<Rightarrow> 0);
                  isServingUnit =
                    (case servingUnit of
                       None \<Rightarrow> False
                     | Some su \<Rightarrow> su \<noteq> [] \<and> normalizedUnit = toLowerCase su)
              in if isServingUnit \<and> weight \<noteq> 0 \<and> sqty \<noteq> 0
                 then Fin (quantity0 * (weight / sqty))
                 else
                   (case find (\<lambda>(u, g, c). toLowerCase u = normalizedUnit
                                     \<or> str_includes normalizedUnit (toLowerCase u)) unitConversions of
                      None \<Rightarrow> Fin quantity0
                    | Some (u, gramsPerUnit, category) \<Rightarrow>
                        if category = Piece \<and> weight \<noteq> 0 \<and> sqty \<noteq> 0
                        then Fin (quantity0 * (weight / sqty))
                        else if gramsPerUnit > 0 then Fin (quantity0 * gramsPerUnit)
                        else Fin quantity0)))"

section \<open>Meal totals of the meal builder (calculateFoodMacros, calculateMealTotals)\<close>

record js_totals =
  js_calories :: jsnum
  js_protein :: jsnum
  js_carbs :: jsnum
  js_fat :: jsnum

definition calculateFoodMacros :: "FoodItem \<Rightarrow> jsnum \<Rightarrow> js_totals" where
  "calculateFoodMacros food quantity0 =
    (let multiplier = js_divide quantity0 (Fin 100) in
     \<lparr> js_calories = js_round (js_times (Fin (calories_per_100g food)) multiplier),
       js_protein = js_divide (js_round (js_times (js_times (Fin (protein_g_per_100g food)) multiplier) (Fin 10))) (Fin 10),
       js_carbs = js_divide (js_round (js_times (js_times (Fin (carbs_g_per_100g food)) multiplier) (Fin 10))) (Fin 10),
       js_fat = js_divide (js_round (js_times (js_times (Fin (fat_g_per_100g food)) multiplier) (Fin 10))) (Fin 10) \<rparr>)"

definition addFoodEntry :: "selected_foods \<Rightarrow> js_totals \<Rightarrow> FoodEntry \<Rightarrow> js_totals" where
  \<comment> \<open>the reducer of \<open>calculateMealTotals\<close>\<close>
  "addFoodEntry selectedFoods totals foodEntry =
    (if isAlternative foodEntry then totals
     else case selectedFoods (entry_id foodEntry) of
            None \<Rightarrow> totals
          | Some food \<Rightarrow>
              if quantity foodEntry \<noteq> 0 then
                let info = servingInfo food;
                    quantityInGrams =
                      convertToGrams (quantity foodEntry)
                        (case unit foodEntry of None \<Rightarrow> ''g'' | Some u \<Rightarrow> if u = [] then ''g'' else u)
                        (case info of None \<Rightarrow> None | Some i \<Rightarrow> serving_weight_grams i)
                        (case info of None \<Rightarrow> None | Some i \<Rightarrow> serving_qty i)
                        (case info of None \<Rightarrow> None | Some i \<Rightarrow> serving_unit i)
                        (altMeasures food);
                    macros = calculateFoodMacros food quantityInGrams
                in \<lparr> js_calories = js_plus (js_calories totals) (js_calories macros),
                     js_protein = js_plus (js_protein totals) (js_protein macros),
                     js_carbs = js_plus (js_carbs totals) (js_carbs macros),
                     js_fat = js_plus (js_fat totals) (js_fat macros) \<rparr>
              else totals)"

definition calculateMealTotals :: "selected_foods \<Rightarrow> Meal \<Rightarrow> js_totals" where
  "calculateMealTotals selectedFoods meal =
     foldl (addFoodEntry selectedFoods)
       \<lparr> js_calories = Fin 0, js_protein = Fin 0, js_carbs = Fin 0, js_fat = Fin 0 \<rparr>
       (foods meal)"

section \<open>Validation engine (validateDietPlanSpecifications)\<close>

record actual_totals = macro_totals +
  proteinPercent :: jsnum
  carbsPercent :: jsnum
  fatPercent :: jsnum

datatype validation_error =
    CalorieDeviationTooHigh real real real     \<comment> \<open>target, actual, deviation\<close>
  | ProteinDeviationTooHigh real real real
  | CarbsDeviationTooHigh real real real
  | FatDeviationTooHigh real real real
  | ProteinPercentageOff real jsnum            \<comment> \<open>target percent, actual percent\<close>
  | CarbsPercentageOff real jsnum
  | FatPercentageOff real jsnum

record validation_result =
  isValid :: bool
  errors :: "validation_error list"
  actualTotals :: actual_totals

definition addPortionRounded :: "selected_foods \<Rightarrow> macro_totals \<Rightarrow> FoodEntry \<Rightarrow> macro_totals" where
  \<comment> \<open>body of the inner loop: every macro is rounded to one decimal as it is added\<close>
  "addPortionRounded selectedFoods t food =
    (case selectedFoods (entry_id food) of
       None \<Rightarrow> t
     | Some selectedFood \<Rightarrow>
         if quantity food \<noteq> 0 then
           let multiplier = quantity food / 100 in
           \<lparr> calories = calories t + Math_round (calories_per_100g selectedFood * multiplier),
             protein = protein t + Math_round ((protein_g_per_100g selectedFood * multiplier) * 10) / 10,
             carbs = carbs t + Math_round ((carbs_g_per_100g selectedFood * multiplier) * 10) / 10,
             fat = fat t + Math_round ((fat_g_per_100g selectedFood * multiplier) * 10) / 10 \<rparr>
         else t)"

definition validationTotals :: "Meal list \<Rightarrow> selected_foods \<Rightarrow> macro_totals" where
  \<comment> \<open>the loops over \<open>meals\<close> and \<open>meal.foods\<close> at the head of the function\<close>
  "validationTotals meals0 selectedFoods =
     foldl (\<lambda>t meal. foldl (addPortionRounded selectedFoods) t (foods meal)) zero_totals meals0"

definition percentOfCalories :: "real \<Rightarrow> real \<Rightarrow> real \<Rightarrow> jsnum" where
  \<comment> \<open>\<open>Math.round((grams * kcalPerGram / totalCalories) * 100)\<close>\<close>
  "percentOfCalories grams kcalPerGram totalCals =
     js_round (js_times (js_divide (Fin (grams * kcalPerGram)) (Fin totalCals)) (Fin 100))"

definition percentOff :: "jsnum \<Rightarrow> real \<Rightarrow> bool" where
  \<comment> \<open>\<open>Math.abs(actualPercent - targetPercent) > 3\<close>\<close>
  "percentOff actualPercent targetPercent =
     js_gt (js_abs (js_minus actualPercent (Fin targetPercent))) (Fin 3)"

definition validateDietPlanSpecifications ::
  "Meal list \<Rightarrow> selected_foods \<Rightarrow> real \<Rightarrow> real \<Rightarrow> real \<Rightarrow> real \<Rightarrow> real \<Rightarrow> real \<Rightarrow> real
     \<Rightarrow> validation_result" where
  "validateDietPlanSpecifications meals0 selectedFoods targetCalories targetProtein targetCarbs
       targetFat proteinPercent0 carbsPercent0 fatPercent0 =
    (let totals = validationTotals meals0 selectedFoods;
         totalCals = calories totals;
         totalProtein = protein totals;
         totalCarbs = carbs totals;
         totalFat = fat totals;
         calorieDeviation = \<bar>totalCals - targetCalories\<bar>;
         proteinDeviation = \<bar>totalProtein - targetProtein\<bar>;
         carbsDeviation = \<bar>totalCarbs - targetCarbs\<bar>;
         fatDeviation = \<bar>totalFat - targetFat\<bar>;
         actualProteinPercent = percentOfCalories totalProtein 4 totalCals;
         actualCarbsPercent = percentOfCalories totalCarbs 4 totalCals;
         actualFatPercent = percentOfCalories totalFat 9 totalCals;
         errs =
           (if calorieDeviation > 150
            then [CalorieDeviationTooHigh targetCalories totalCals calorieDeviation] else [])
           @ (if proteinDeviation > 15
              then [ProteinDeviationTooHigh targetProtein totalProtein proteinDeviation] else [])
           @ (if carbsDeviation > 15
              then [CarbsDeviationTooHigh targetCarbs totalCarbs carbsDeviation] else [])
           @ (if fatDeviation > 15
              then [FatDeviationTooHigh targetFat totalFat fatDeviation] else [])
           @ (if percentOff actualProteinPercent proteinPercent0
              then [ProteinPercentageOff proteinPercent0 actualProteinPercent] else [])
           @ (if percentOff actualCarbsPercent carbsPercent0
              then [CarbsPercentageOff carbsPercent0 actualCarbsPercent] else [])
           @ (if percentOff actualFatPercent fatPercent0
              then [FatPercentageOff fatPercent0 actualFatPercent] else [])
     in \<lparr> isValid = (length errs = 0),
          errors = errs,
          actualTotals = \<lparr> calories = totalCals, protein = totalProtein, carbs = totalCarbs,
                           fat = totalFat, proteinPercent = actualProteinPercent,
                           carbsPercent = actualCarbsPercent, fatPercent = actualFatPercent \<rparr> \<rparr>)"

section \<open>NNLS solver (nnlsSolve)\<close>

text \<open>
  \<open>A\<close> is a list of \<open>m\<close> rows; \<open>n\<close> is the length of the first row
  (\<open>A[0]?.length || 0\<close>). Both callers build a rectangular \<open>A\<close> with three rows and a
  \<open>b\<close> with three entries. On a ragged \<open>A\<close> or a short \<open>b\<close> JavaScript reads
  \<open>undefined\<close> and computes with \<open>NaN\<close>; such inputs are outside this model, and the
  properties below assume a rectangular \<open>A\<close> and a \<open>b\<close> that covers its rows.
  The iteration cap is a count.
\<close>

definition nnls_cols :: "real list list \<Rightarrow> nat" where
  "nnls_cols A = (case A of [] \<Rightarrow> 0 | r # _ \<Rightarrow> length r)"

definition rectangular :: "real list list \<Rightarrow> bool" where
  "rectangular A = list_all (\<lambda>r. length r = nnls_cols A) A"

definition nnls_At :: "real list list \<Rightarrow> real list list" where
  "nnls_At A = map (\<lambda>j. map (\<lambda>i. A ! i ! j) [0..<length A]) [0..<nnls_cols A]"

definition nnls_AtA :: "real list list \<Rightarrow> real list list" where
  "nnls_AtA A =
     map (\<lambda>i. map (\<lambda>j. foldl (\<lambda>s k. s + nnls_At A ! i ! k * A ! k ! j) 0 [0..<length A])
                 [0..<nnls_cols A])
         [0..<nnls_cols A]"

definition nnls_Atb :: "real list list \<Rightarrow> real list \<Rightarrow> real list" where
  "nnls_Atb A b =
     map (\<lambda>i. foldl (\<lambda>sb k. sb + nnls_At A ! i ! k * b ! k) 0 [0..<length A])
         [0..<nnls_cols A]"

definition nnls_gradient :: "real list list \<Rightarrow> real list \<Rightarrow> nat \<Rightarrow> nat \<Rightarrow> real list \<Rightarrow> real" where
  \<comment> \<open>\<open>g_i = (AtA x - Atb)_i\<close>, accumulated from \<open>-Atb[i]\<close>\<close>
  "nnls_gradient AtA Atb n i x = foldl (\<lambda>g j. g + AtA ! i ! j * x ! j) (- (Atb ! i)) [0..<n]"

definition nnls_update ::
  "real list list \<Rightarrow> real list \<Rightarrow> nat \<Rightarrow> real list \<times> real \<Rightarrow> nat \<Rightarrow> real list \<times> real" where
  \<comment> \<open>one coordinate step: the state is \<open>(x, maxChange)\<close>\<close>
  "nnls_update AtA Atb n st i =
    (case st of (x, maxChange) \<Rightarrow>
       let g = nnls_gradient AtA Atb n i x;
           denom = (if AtA ! i ! i > 1 / 10 ^ 9 then AtA ! i ! i else 1 / 10 ^ 9);
           step = - g / denom;
           newVal0 = x ! i + step;
           newVal = (if newVal0 < 0 then 0 else newVal0);
           change = \<bar>newVal - x ! i\<bar>
       in (x[i := newVal], if change > maxChange then change else maxChange))"

definition nnls_sweep :: "real list list \<Rightarrow> real list \<Rightarrow> nat \<Rightarrow> real list \<Rightarrow> real list \<times> real" where
  "nnls_sweep AtA Atb n x = foldl (nnls_update AtA Atb n) (x, 0) [0..<n]"

fun nnls_iterate :: "real list list \<Rightarrow> real list \<Rightarrow> nat \<Rightarrow> nat \<Rightarrow> real list \<Rightarrow> real list" where
  \<comment> \<open>the outer loop; the fourth argument is the number of iterations left\<close>
  "nnls_iterate AtA Atb n 0 x = x"
| "nnls_iterate AtA Atb n (Suc k) x =
     (case nnls_sweep AtA Atb n x of
        (x', maxChange) \<Rightarrow>
          if maxChange < 1 / 10 ^ 4 then x' else nnls_iterate AtA Atb n k x')"

definition nnls_solution :: "real list list \<Rightarrow> real list \<Rightarrow> nat \<Rightarrow> real list" where
  \<comment> \<open>the iterate \<open>x\<close> when the loop ends\<close>
  "nnls_solution A b maxIter =
     nnls_iterate (nnls_AtA A) (nnls_Atb A b) (nnls_cols A) maxIter (replicate (nnls_cols A) 0)"

definition nnlsSolve :: "real list list \<Rightarrow> real list \<Rightarrow> nat \<Rightarrow> real list option" where
  \<comment> \<open>\<open>None\<close> is \<open>null\<close>\<close>
  "nnlsSolve A b maxIter =
    (if nnls_cols A = 0 then Some []
     else
       let x = nnls_solution A b maxIter;
           sum = foldl (\<lambda>s v. s + v) 0 x
       in if sum \<le> 0 then None else Some x)"

section \<open>Generation and retry orchestrator (generateDietPlan)\<close>

text \<open>
  \<open>generateInitialDietPlan\<close> and \<open>intelligentlyAdjustDietPlan\<close> ask the external
  text-generation service and the food databases; each wraps its whole body in a
  \<open>try\<close> whose \<open>catch\<close> returns \<open>null\<close>, so a call yields a plan or \<open>null\<close> and
  never throws. They are parameters of the model: \<open>initial\<close> is what the single call of
  attempt 1 returns, and \<open>adjust attempt previousAttempts\<close> what the call of a later
  attempt returns. The validation function is total, so nothing inside the \<open>try\<close> of
  the loop throws and its \<open>catch\<close> has no counterpart here. The pauses between
  attempts are not modelled.
\<close>

record plan_result =
  plan_meals :: "Meal list"
  plan_selectedFoods :: selected_foods
  plan_notes :: string
  plan_reasoning :: string

record attempt_record =
  attempt_no :: nat
  attempt_result :: plan_result
  attempt_validation :: validation_result

record DietSettings =
  s_proteinPercent :: real
  s_carbsPercent :: real
  s_fatPercent :: real
  s_calorieAdjustment :: real
  s_mealCount :: real
  s_dietType :: string
  s_restrictions :: string
  s_preferences :: string
  s_goals :: string

datatype settings_arg = SettingsText string | SettingsObject DietSettings

definition normalizeSettings :: "settings_arg \<Rightarrow> DietSettings" where
  "normalizeSettings dietSettings =
    (case dietSettings of
       SettingsText txt \<Rightarrow>
         \<lparr> s_proteinPercent = 25, s_carbsPercent = 45, s_fatPercent = 30,
           s_calorieAdjustment = 0, s_mealCount = 4, s_dietType = ''balanced'',
           s_restrictions = txt, s_preferences = [], s_goals = ''maintenance'' \<rparr>
     | SettingsObject st \<Rightarrow> st)"

definition maxAttempts :: nat where
  "maxAttempts = 10"

record loop_outcome =
  outcome :: "error + plan_result"
  attemptsPerformed :: nat
  history :: "attempt_record list"

function generationLoop ::
  "plan_result option \<Rightarrow> (nat \<Rightarrow> attempt_record list \<Rightarrow> plan_result option) \<Rightarrow> diet_targets
     \<Rightarrow> DietSettings \<Rightarrow> nat \<Rightarrow> attempt_record list \<Rightarrow> loop_outcome" where
  "generationLoop initial adjust tg settings attempt previousAttempts =
    (if attempt \<le> maxAttempts then
       (case (if attempt = 1 then initial else adjust attempt previousAttempts) of
          None \<Rightarrow> generationLoop initial adjust tg settings (attempt + 1) previousAttempts
        | Some result \<Rightarrow>
            (let validation =
                   validateDietPlanSpecifications (plan_meals result) (plan_selectedFoods result)
                     (adjustedTargetCalories tg) (t_proteinGrams tg) (t_carbsGrams tg)
                     (adjustedFatGrams tg)
                     (s_proteinPercent settings) (s_carbsPercent settings) (s_fatPercent settings);
                 pushed = previousAttempts
                   @ [\<lparr> attempt_no = attempt, attempt_result = result,
                         attempt_validation = validation \<rparr>]
             in if isValid validation
                then \<lparr> outcome = Inr result, attemptsPerformed = attempt, history = pushed \<rparr>
                else if attempt = maxAttempts
                then \<lparr> outcome = Inl (AttemptsExhausted maxAttempts),
                       attemptsPerformed = attempt, history = pushed \<rparr>
                else generationLoop initial adjust tg settings (attempt + 1) pushed))
     else \<lparr> outcome = Inl (AttemptsExhausted maxAttempts),
            attemptsPerformed = attempt - 1, history = previousAttempts \<rparr>)"
  by pat_completeness auto
termination
  by (relation "measure (\<lambda>(initial, adjust, tg, settings, attempt, previousAttempts).
                            Suc maxAttempts - attempt)") auto

record generation =
  generated :: "error + plan_result option"
  attemptsUsed :: nat

definition generateDietPlan ::
  "bool \<Rightarrow> plan_result option \<Rightarrow> (nat \<Rightarrow> attempt_record list \<Rightarrow> plan_result option)
     \<Rightarrow> real \<Rightarrow> settings_arg \<Rightarrow> real \<Rightarrow> generation" where
  \<comment> \<open>\<open>generated\<close> is the thrown error, or the returned value: \<open>null\<close> or the plan\<close>
  "generateDietPlan aiAvailable initial adjust targetCalories dietSettings deficitSurplus =
    (if \<not> aiAvailable then \<lparr> generated = Inr None, attemptsUsed = 0 \<rparr>
     else
       let settings = normalizeSettings dietSettings in
       case computeTargets targetCalories deficitSurplus
              (s_proteinPercent settings) (s_carbsPercent settings) (s_fatPercent settings) of
         Inl e \<Rightarrow> \<lparr> generated = Inl e, attemptsUsed = 0 \<rparr>
       | Inr tg \<Rightarrow>
           (let run = generationLoop initial adjust tg settings 1 [] in
            \<lparr> generated = (case outcome run of Inl e \<Rightarrow> Inl e | Inr result \<Rightarrow> Inr (Some result)),
              attemptsUsed = attemptsPerformed run \<rparr>))"

section \<open>Plan totals shared by the correction routines\<close>

text \<open>
  \<open>programmaticAdjustPortions\<close>, \<open>redistributePortionsForMacros\<close> and
  \<open>macroCorrectionLoop\<close> each open with the same loop: calories are rounded per
  portion, the macro grams are added unrounded. None of them reads \<open>isAlternative\<close>.
\<close>

definition addPortion :: "selected_foods \<Rightarrow> macro_totals \<Rightarrow> FoodEntry \<Rightarrow> macro_totals" where
  "addPortion selectedFoods t food =
    (case selectedFoods (entry_id food) of
       None \<Rightarrow> t
     | Some sf \<Rightarrow>
         if quantity food = 0 then t
         else
           let mult = quantity food / 100 in
           \<lparr> calories = calories t + Math_round (calories_per_100g sf * mult),
             protein = protein t + protein_g_per_100g sf * mult,
             carbs = carbs t + carbs_g_per_100g sf * mult,
             fat = fat t + fat_g_per_100g sf * mult \<rparr>)"

definition planTotals :: "Meal list \<Rightarrow> selected_foods \<Rightarrow> macro_totals" where
  "planTotals meals0 selectedFoods =
     foldl (\<lambda>t meal. foldl (addPortion selectedFoods) t (foods meal)) zero_totals meals0"

section \<open>Greedy redistribution (redistributePortionsForMacros)\<close>

datatype macro = Protein | Carbs | Fat

record candidate =
  mealIdx :: nat
  foodIdx :: nat
  cand_id :: string
  perCalProtein :: real
  perCalCarbs :: real
  perCalFat :: real
  cand_qty :: real

record redistribute_options =
  maxPercentChangePerFood :: "real option"
  iterations :: "nat option"

definition computeTotals :: "selected_foods \<Rightarrow> Meal list \<Rightarrow> macro_totals" where
  "computeTotals selectedFoods mMeals =
    (let t = planTotals mMeals selectedFoods in
     \<lparr> calories = calories t,
       protein = Math_round (protein t * 10) / 10,
       carbs = Math_round (carbs t * 10) / 10,
       fat = Math_round (fat t * 10) / 10 \<rparr>)"

definition foodCandidates :: "selected_foods \<Rightarrow> nat \<Rightarrow> nat \<times> FoodEntry \<Rightarrow> candidate list" where
  \<comment> \<open>what the inner \<open>forEach\<close> pushes for the food at index \<open>fi\<close> of meal \<open>mi\<close>\<close>
  "foodCandidates selectedFoods mi p =
    (case p of (fi, food) \<Rightarrow>
       case selectedFoods (entry_id food) of
         None \<Rightarrow> []
       | Some sf \<Rightarrow>
           if quantity food = 0 then []
           else
             let calPerGram = calories_per_100g sf / 100 in
             if calPerGram \<le> 0 then []
             else [\<lparr> mealIdx = mi, foodIdx = fi, cand_id = entry_id food,
                      perCalProtein = protein_g_per_100g sf / 100 / calPerGram,
                      perCalCarbs = carbs_g_per_100g sf / 100 / calPerGram,
                      perCalFat = fat_g_per_100g sf / 100 / calPerGram,
                      cand_qty = quantity food \<rparr>])"

definition buildCandidates :: "selected_foods \<Rightarrow> Meal list \<Rightarrow> candidate list" where
  "buildCandidates selectedFoods newMeals =
     concat (map (\<lambda>(mi, meal). concat (map (foodCandidates selectedFoods mi)
                                            (enumerate 0 (foods meal))))
                 (enumerate 0 newMeals))"

definition quantityAt :: "Meal list \<Rightarrow> nat \<Rightarrow> nat \<Rightarrow> real" where
  "quantityAt newMeals mi fi = quantity (foods (newMeals ! mi) ! fi)"

definition setQuantity :: "Meal list \<Rightarrow> nat \<Rightarrow> nat \<Rightarrow> real \<Rightarrow> Meal list" where
  \<comment> \<open>\<open>newMeals[mi].foods[fi].quantity = q\<close>; the indices come from \<open>buildCandidates\<close>\<close>
  "setQuantity newMeals mi fi q =
     newMeals[mi := (newMeals ! mi)
       \<lparr> foods := (foods (newMeals ! mi))[fi := (foods (newMeals ! mi) ! fi) \<lparr> quantity := q \<rparr>] \<rparr>]"

definition metric :: "macro \<Rightarrow> candidate \<Rightarrow> real" where
  "metric m item = (case m of Protein \<Rightarrow> perCalProtein item
                            | Carbs \<Rightarrow> perCalCarbs item
                            | Fat \<Rightarrow> perCalFat item)"

definition macroOf :: "macro \<Rightarrow> macro_totals \<Rightarrow> real" where
  "macroOf m t = (case m of Protein \<Rightarrow> protein t | Carbs \<Rightarrow> carbs t | Fat \<Rightarrow> fat t)"

definition tryCandidate ::
  "selected_foods \<Rightarrow> macro_totals \<Rightarrow> real \<Rightarrow> macro \<Rightarrow> real \<Rightarrow> candidate \<Rightarrow> Meal list \<Rightarrow> Meal list option" where
  \<comment> \<open>the body of the \<open>for (const c of candidates)\<close> loop of \<open>adjustFor\<close>: \<open>Some\<close> the
      changed meals when the change is kept, \<open>None\<close> when it is reverted\<close>
  "tryCandidate selectedFoods targets maxPercent m diff c newMeals =
    (let needIncrease = (diff > 0);
         sign = (if needIncrease then 1 else - 1);
         pct = sign * (min maxPercent (max 2 (if \<bar>diff\<bar> > 50 then Math_round maxPercent else 6)) / 100);
         mi = mealIdx c;
         fi = foodIdx c;
         currentQty = quantityAt newMeals mi fi;
         newQty = max 1 (Math_round (currentQty * (1 + pct)));
         changed = setQuantity newMeals mi fi newQty;
         totals = computeTotals selectedFoods changed;
         newDiff = macroOf m targets - macroOf m totals
     in if (needIncrease \<and> \<bar>newDiff\<bar> < \<bar>diff\<bar>) \<or> (\<not> needIncrease \<and> \<bar>newDiff\<bar> < \<bar>diff\<bar>)
        then Some changed
        else None)"

fun tryCandidates :: "(candidate \<Rightarrow> Meal list \<Rightarrow> Meal list option) \<Rightarrow> candidate list \<Rightarrow> Meal list \<Rightarrow> Meal list" where
  \<comment> \<open>the loop itself: it returns at the first change that is kept\<close>
  "tryCandidates body [] newMeals = newMeals"
| "tryCandidates body (c # cs) newMeals =
     (case body c newMeals of
        Some changed \<Rightarrow> changed
      | None \<Rightarrow> tryCandidates body cs newMeals)"

definition adjustFor ::
  "selected_foods \<Rightarrow> macro_totals \<Rightarrow> real \<Rightarrow> candidate list \<Rightarrow> macro \<Rightarrow> real \<Rightarrow> Meal list \<Rightarrow> Meal list" where
  \<comment> \<open>the sort is stable and descending in the metric, as \<open>Array.prototype.sort\<close> with
      the comparator \<open>metric(b) - metric(a)\<close>\<close>
  "adjustFor selectedFoods targets maxPercent candidates m diff newMeals =
    (if \<bar>diff\<bar> < 5 then newMeals
     else tryCandidates (tryCandidate selectedFoods targets maxPercent m diff)
            (sort_key (\<lambda>c. - metric m c) candidates) newMeals)"

definition redistributeRound ::
  "selected_foods \<Rightarrow> macro_totals \<Rightarrow> real \<Rightarrow> Meal list \<Rightarrow> Meal list option" where
  \<comment> \<open>one round of the \<open>for (it < iterations)\<close> loop; \<open>None\<close> is \<open>break\<close>\<close>
  "redistributeRound selectedFoods targets maxPercent newMeals =
    (let totals = computeTotals selectedFoods newMeals;
         protDiff = protein targets - protein totals;
         carbDiff = carbs targets - carbs totals;
         fatDiff = fat targets - fat totals
     in if \<bar>protDiff\<bar> \<le> 10 \<and> \<bar>carbDiff\<bar> \<le> 10 \<and> \<bar>fatDiff\<bar> \<le> 8 then None
        else
          let candidates = buildCandidates selectedFoods newMeals in
          if length candidates = 0 then None
          else
            let absProt = \<bar>protDiff\<bar>; absCarb = \<bar>carbDiff\<bar>; absFat = \<bar>fatDiff\<bar> in
            Some (if absProt \<ge> absCarb \<and> absProt \<ge> absFat
                  then adjustFor selectedFoods targets maxPercent candidates Protein protDiff newMeals
                  else if absCarb \<ge> absProt \<and> absCarb \<ge> absFat
                  then adjustFor selectedFoods targets maxPercent candidates Carbs carbDiff newMeals
                  else adjustFor selectedFoods targets maxPercent candidates Fat fatDiff newMeals))"

fun redistributeRounds :: "(Meal list \<Rightarrow> Meal list option) \<Rightarrow> nat \<Rightarrow> Meal list \<Rightarrow> Meal list" where
  \<comment> \<open>the loop; the second argument is the number of rounds left\<close>
  "redistributeRounds body 0 newMeals = newMeals"
| "redistributeRounds body (Suc k) newMeals =
     (case body newMeals of
        None \<Rightarrow> newMeals
      | Some adjusted \<Rightarrow> redistributeRounds body k adjusted)"

definition finalCalories :: "selected_foods \<Rightarrow> Meal list \<Rightarrow> real" where
  \<comment> \<open>the calories of \<open>finalTotals\<close>\<close>
  "finalCalories selectedFoods newMeals =
     foldl (\<lambda>cals meal.
              foldl (\<lambda>cals food.
                       case selectedFoods (entry_id food) of
                         None \<Rightarrow> cals
                       | Some sf \<Rightarrow>
                           if quantity food = 0 then cals
                           else cals + Math_round (calories_per_100g sf * (quantity food / 100)))
                    cals (foods meal))
           0 newMeals"

definition roundsResult :: "Meal list \<Rightarrow> selected_foods \<Rightarrow> macro_totals \<Rightarrow> redistribute_options \<Rightarrow> Meal list" where
  \<comment> \<open>\<open>newMeals\<close> when the rounds are over\<close>
  "roundsResult meals0 selectedFoods targets opts =
     redistributeRounds
       (redistributeRound selectedFoods targets
          (case maxPercentChangePerFood opts of None \<Rightarrow> 20 | Some v \<Rightarrow> v))
       (case iterations opts of None \<Rightarrow> 5 | Some v \<Rightarrow> v)
       meals0"

definition redistributePortionsForMacros ::
  "Meal list \<Rightarrow> selected_foods \<Rightarrow> macro_totals \<Rightarrow> redistribute_options \<Rightarrow> Meal list option" where
  \<comment> \<open>works on a deep copy of \<open>meals\<close>; \<open>None\<close> is \<open>null\<close>\<close>
  "redistributePortionsForMacros meals0 selectedFoods targets opts =
    (let totals = computeTotals selectedFoods meals0 in
     if \<bar>calories totals - calories targets\<bar> > 200 then None
     else
       let newMeals = roundsResult meals0 selectedFoods targets opts in
       if \<bar>finalCalories selectedFoods newMeals - calories targets\<bar> > 200 then None
       else Some newMeals)"

section \<open>Macro profiles and their cache (fetchAndCacheProfile)\<close>

record macro_profile =
  p_calories_per_100g :: real
  p_protein_g_per_100g :: real
  p_carbs_g_per_100g :: real
  p_fat_g_per_100g :: real

type_synonym profile_cache = "string \<rightharpoonup> macro_profile"

definition standardNames :: "(string \<times> string) list" where
  "standardNames =
    [(''chicken'', ''chicken breast, skinless''),
     (''chicken breast'', ''chicken breast, skinless''),
     (''brown rice'', ''brown rice, cooked''),
     (''white rice'', ''rice, white, cooked''),
     (''olive oil'', ''olive oil''),
     (''egg white'', ''egg, white, raw''),
     (''whey'', ''whey protein, isolate'')]"

definition standardizeFoodName :: "string \<Rightarrow> string" where
  "standardizeFoodName name =
    (if name = [] then name
     else case map_of standardNames (toLowerCase (trim name)) of
            Some standard \<Rightarrow> standard
          | None \<Rightarrow> name)"

definition cacheMacroProfile :: "profile_cache \<Rightarrow> string \<Rightarrow> macro_profile \<Rightarrow> profile_cache" where
  "cacheMacroProfile cache key profile =
     (if key = [] then cache else cache(toLowerCase key \<mapsto> profile))"

definition getCachedProfile :: "profile_cache \<Rightarrow> string \<Rightarrow> macro_profile option" where
  "getCachedProfile cache key = (if key = [] then None else cache (toLowerCase key))"

definition PURE_MACRO_CANDIDATES :: "(string \<times> macro) list" where
  "PURE_MACRO_CANDIDATES =
    [(''whey protein, isolate'', Protein),
     (''egg, white, raw'', Protein),
     (''chicken breast, skinless'', Protein),
     (''brown rice, cooked'', Carbs),
     (''oats, rolled'', Carbs),
     (''banana, raw'', Carbs),
     (''olive oil'', Fat),
     (''avocado, raw'', Fat),
     (''butter'', Fat)]"

definition mkProfile :: "real \<Rightarrow> real \<Rightarrow> real \<Rightarrow> real \<Rightarrow> macro_profile" where
  "mkProfile c p cb f =
     \<lparr> p_calories_per_100g = c, p_protein_g_per_100g = p, p_carbs_g_per_100g = cb,
       p_fat_g_per_100g = f \<rparr>"

definition FALLBACK_PROFILES :: "(string \<times> macro_profile) list" where
  "FALLBACK_PROFILES =
    [(''whey protein, isolate'', mkProfile 400 80 8 2),
     (''egg, white, raw'', mkProfile 52 11 (7 / 10) (2 / 10)),
     (''chicken breast, skinless'', mkProfile 165 31 0 (36 / 10)),
     (''brown rice, cooked'', mkProfile 123 (27 / 10) (256 / 10) 1),
     (''oats, rolled'', mkProfile 389 (169 / 10) (663 / 10) (69 / 10)),
     (''banana, raw'', mkProfile 89 (11 / 10) (228 / 10) (3 / 10)),
     (''olive oil'', mkProfile 884 0 0 100),
     (''avocado, raw'', mkProfile 160 2 9 15),
     (''butter'', mkProfile 717 (9 / 10) (1 / 10) 81)]"

text \<open>
  \<open>search\<close> stands for the two external food lookups of \<open>fetchAndCacheProfile\<close>:
  the profile of the first record found, \<open>None\<close> when neither service finds the food
  or the lookup throws. The cache is the module-level \<open>macroProfileCache\<close>, passed in
  and returned.
\<close>

definition fetchAndCacheProfile ::
  "(string \<Rightarrow> macro_profile option) \<Rightarrow> profile_cache \<Rightarrow> string \<Rightarrow> macro_profile option \<times> profile_cache" where
  "fetchAndCacheProfile search cache foodName =
    (let standardized = standardizeFoodName foodName in
     case getCachedProfile cache standardized of
       Some cached \<Rightarrow> (Some cached, cache)
     | None \<Rightarrow>
        (case map_of FALLBACK_PROFILES (toLowerCase standardized) of
           Some fb \<Rightarrow> (Some fb, cacheMacroProfile cache standardized fb)
         | None \<Rightarrow>
            (case search standardized of
               Some profile \<Rightarrow> (Some profile, cacheMacroProfile cache standardized profile)
             | None \<Rightarrow> (None, cache))))"

section \<open>Macro correction loop (macroCorrectionLoop)\<close>

text \<open>
  The gram amounts of the correction foods are computed with divisions whose divisor can
  be zero (a candidate profile without the needed macro, a zero calorie sum under a
  negative cap), so they are \<open>jsnum\<close>s. A food entry of this model holds a finite
  quantity; where the source would append a portion with an infinite or \<open>NaN\<close>
  quantity the model answers \<open>NonFiniteQuantity\<close>. The identifiers that the source
  draws from the clock and the random generator are parameters: \<open>correctionMealId\<close>,
  and \<open>pseudoId k\<close> for the \<open>k\<close>-th correction food.
\<close>

definition js_max :: "jsnum \<Rightarrow> jsnum \<Rightarrow> jsnum" where
  \<comment> \<open>\<open>Math.max(a, b)\<close>\<close>
  "js_max a b = (if a = NaN \<or> b = NaN then NaN else if js_gt a b then a else b)"

record correction_options =
  maxCandidates :: "int option"
  maxCorrectionCalories :: "real option"

record correction_food =
  cf_name :: string
  cf_grams :: jsnum
  cf_profile :: macro_profile

datatype correction_details =
    WithinTolerance
  | NoProfiles
  | NoCorrectionComputed
  | CorrectionFoods "correction_food list"

record correction_result =
  cr_meals :: "Meal list"
  cr_selectedFoods :: selected_foods
  correctionMealAdded :: bool
  details :: correction_details

datatype correction_outcome = Returned correction_result | NonFiniteQuantity

record macro_deficit =
  d_calories :: real
  d_protein :: real
  d_carbs :: real
  d_fat :: real

definition correctionDeficit :: "Meal list \<Rightarrow> selected_foods \<Rightarrow> macro_totals \<Rightarrow> macro_deficit" where
  "correctionDeficit meals0 selectedFoods targets =
    (let t = planTotals meals0 selectedFoods in
     \<lparr> d_calories = calories targets - calories t,
       d_protein = Math_round ((protein targets - protein t) * 10) / 10,
       d_carbs = Math_round ((carbs targets - carbs t) * 10) / 10,
       d_fat = Math_round ((fat targets - fat t) * 10) / 10 \<rparr>)"

definition slice0 :: "'a list \<Rightarrow> int \<Rightarrow> 'a list" where
  \<comment> \<open>\<open>xs.slice(0, k)\<close>: a negative \<open>k\<close> counts from the end\<close>
  "slice0 xs k = (if k \<ge> 0 then take (nat k) xs else take (nat (int (length xs) + k)) xs)"

fun fetchProfiles ::
  "(string \<Rightarrow> macro_profile option) \<Rightarrow> profile_cache \<Rightarrow> (string \<times> macro) list
     \<Rightarrow> (string \<times> macro_profile) list \<times> profile_cache" where
  \<comment> \<open>the loop that fetches the profile of every picked candidate\<close>
  "fetchProfiles search cache [] = ([], cache)"
| "fetchProfiles search cache (c # cs) =
     (case fetchAndCacheProfile search cache (fst c) of
        (prof, cache1) \<Rightarrow>
          (case fetchProfiles search cache1 cs of
             (rest, cache2) \<Rightarrow>
               ((case prof of None \<Rightarrow> rest | Some pr \<Rightarrow> (fst c, pr) # rest), cache2)))"

definition solutionFoods :: "(string \<times> macro_profile) list \<Rightarrow> real list option \<Rightarrow> correction_food list" where
  \<comment> \<open>the positive rounded gram amounts of an NNLS solution of the right length\<close>
  "solutionFoods profiles solution =
    (case solution of
       None \<Rightarrow> []
     | Some sol \<Rightarrow>
         if length sol = length profiles then
           concat (map (\<lambda>(pr, v).
                          let grams = max 0 (Math_round v) in
                          if grams > 0
                          then [\<lparr> cf_name = fst pr, cf_grams = Fin grams, cf_profile = snd pr \<rparr>]
                          else [])
                       (zip profiles sol))
         else [])"

definition bestFor ::
  "(macro_profile \<Rightarrow> real) \<Rightarrow> string \<times> macro_profile \<Rightarrow> (string \<times> macro_profile) list
     \<Rightarrow> string \<times> macro_profile" where
  \<comment> \<open>\<open>profiles.reduce((a, b) => (per100(b) > per100(a) ? b : a))\<close> on a non-empty list\<close>
  "bestFor per100 p0 ps = foldl (\<lambda>a b. if per100 (snd b) > per100 (snd a) then b else a) p0 ps"

definition greedyFood ::
  "(macro_profile \<Rightarrow> real) \<Rightarrow> real \<Rightarrow> string \<times> macro_profile \<Rightarrow> (string \<times> macro_profile) list
     \<Rightarrow> correction_food list" where
  "greedyFood per100 deficit p0 ps =
    (let best = bestFor per100 p0 ps;
         grams = js_max (Fin 0) (js_round (js_divide (Fin deficit) (Fin (per100 (snd best) / 100))))
     in if js_gt grams (Fin 0)
        then [\<lparr> cf_name = fst best, cf_grams = grams, cf_profile = snd best \<rparr>]
        else [])"

definition correctionCaloriesOf :: "correction_food list \<Rightarrow> jsnum" where
  "correctionCaloriesOf cfs =
     foldl (\<lambda>acc cf.
              js_plus acc
                (js_round (js_divide (js_times (Fin (p_calories_per_100g (cf_profile cf))) (cf_grams cf))
                                     (Fin 100))))
           (Fin 0) cfs"

definition capCorrection :: "real \<Rightarrow> correction_food list \<Rightarrow> correction_food list" where
  "capCorrection maxCals cfs =
    (let correctionCalories = correctionCaloriesOf cfs in
     if js_gt correctionCalories (Fin maxCals) then
       let scale = js_divide (Fin maxCals) correctionCalories in
       map (\<lambda>cf. cf \<lparr> cf_grams := js_max (Fin 1) (js_round (js_times (cf_grams cf) scale)) \<rparr>) cfs
     else cfs)"

fun appendCorrectionFoods ::
  "(nat \<Rightarrow> string) \<Rightarrow> nat \<Rightarrow> correction_food list \<Rightarrow> selected_foods \<Rightarrow> FoodEntry list
     \<Rightarrow> (selected_foods \<times> FoodEntry list) option" where
  \<comment> \<open>the loop that registers every correction food and pushes its portion;
      \<open>None\<close> when a gram amount is not finite\<close>
  "appendCorrectionFoods pseudoId k [] selectedFoods entries = Some (selectedFoods, entries)"
| "appendCorrectionFoods pseudoId k (cf # cfs) selectedFoods entries =
     (case cf_grams cf of
        Fin g \<Rightarrow>
          appendCorrectionFoods pseudoId (Suc k) cfs
            (selectedFoods(pseudoId k \<mapsto>
               \<lparr> name_en = cf_name cf,
                 calories_per_100g = p_calories_per_100g (cf_profile cf),
                 protein_g_per_100g = p_protein_g_per_100g (cf_profile cf),
                 carbs_g_per_100g = p_carbs_g_per_100g (cf_profile cf),
                 fat_g_per_100g = p_fat_g_per_100g (cf_profile cf),
                 servingInfo = None, altMeasures = None \<rparr>))
            (entries @ [\<lparr> entry_id = pseudoId k, quantity = g, unit = Some ''g'',
                          isAlternative = False, parentId = None \<rparr>])
      | _ \<Rightarrow> None)"

definition macroCorrectionLoop ::
  "(string \<Rightarrow> macro_profile option) \<Rightarrow> profile_cache \<Rightarrow> string \<Rightarrow> (nat \<Rightarrow> string)
     \<Rightarrow> Meal list \<Rightarrow> selected_foods \<Rightarrow> macro_totals \<Rightarrow> correction_options
     \<Rightarrow> correction_outcome \<times> profile_cache" where
  "macroCorrectionLoop search cache correctionMealId pseudoId meals0 selectedFoods targets opts =
    (let deficit = correctionDeficit meals0 selectedFoods targets;
         needProtein = (d_protein deficit > 1);
         needCarbs = (d_carbs deficit > 1);
         needFat = (d_fat deficit > 1);
         unchanged = (\<lambda>why. Returned \<lparr> cr_meals = meals0, cr_selectedFoods = selectedFoods,
                                        correctionMealAdded = False, details = why \<rparr>)
     in if \<not> needProtein \<and> \<not> needCarbs \<and> \<not> needFat \<and> \<bar>d_calories deficit\<bar> \<le> 50
        then (unchanged WithinTolerance, cache)
        else
          let candidates =
                filter (\<lambda>c. (snd c = Protein \<and> needProtein) \<or> (snd c = Carbs \<and> needCarbs)
                             \<or> (snd c = Fat \<and> needFat))
                       PURE_MACRO_CANDIDATES;
              picked = slice0 candidates
                         (case maxCandidates opts of None \<Rightarrow> 3 | Some k \<Rightarrow> if k = 0 then 3 else k)
          in case fetchProfiles search cache picked of
               (profiles, cache1) \<Rightarrow>
                 (case profiles of
                    [] \<Rightarrow> (unchanged NoProfiles, cache1)
                  | p0 # ps \<Rightarrow>
                     (let A = [map (\<lambda>p. p_protein_g_per_100g (snd p) / 100) profiles,
                               map (\<lambda>p. p_carbs_g_per_100g (snd p) / 100) profiles,
                               map (\<lambda>p. p_fat_g_per_100g (snd p) / 100) profiles];
                          B = [d_protein deficit, d_carbs deficit, d_fat deficit];
                          solution = nnlsSolve A B 500;
                          fromSolution = solutionFoods profiles solution;
                          correctionFoods =
                            (if length fromSolution = 0 then
                               (if needProtein
                                then greedyFood p_protein_g_per_100g (d_protein deficit) p0 ps else [])
                               @ (if needCarbs
                                  then greedyFood p_carbs_g_per_100g (d_carbs deficit) p0 ps else [])
                               @ (if needFat
                                  then greedyFood p_fat_g_per_100g (d_fat deficit) p0 ps else [])
                             else fromSolution)
                      in if length correctionFoods = 0
                         then (unchanged NoCorrectionComputed, cache1)
                         else
                           let maxCals = (case maxCorrectionCalories opts of
                                            None \<Rightarrow> 800
                                          | Some v \<Rightarrow> if v = 0 then 800 else v);
                               capped = capCorrection maxCals correctionFoods
                           in case appendCorrectionFoods pseudoId 0 capped selectedFoods [] of
                                None \<Rightarrow> (NonFiniteQuantity, cache1)
                              | Some (selectedFoods1, entries) \<Rightarrow>
                                  (Returned
                                     \<lparr> cr_meals = meals0
                                         @ [\<lparr> meal_id = correctionMealId,
                                               meal_name = ''Macro correction'',
                                               foods = entries \<rparr>],
                                       cr_selectedFoods = selectedFoods1,
                                       correctionMealAdded = True,
                                       details = CorrectionFoods capped \<rparr>, cache1))))"

section \<open>Auxiliary notions for the properties\<close>

fun isPercentageError :: "validation_error \<Rightarrow> bool" where
  "isPercentageError (ProteinPercentageOff _ _) = True"
| "isPercentageError (CarbsPercentageOff _ _) = True"
| "isPercentageError (FatPercentageOff _ _) = True"
| "isPercentageError _ = False"

definition passesStrictValidation :: "diet_targets \<Rightarrow> DietSettings \<Rightarrow> plan_result \<Rightarrow> bool" where
  \<comment> \<open>the validation call of the retry loop accepts the plan\<close>
  "passesStrictValidation tg settings result =
     isValid (validateDietPlanSpecifications (plan_meals result) (plan_selectedFoods result)
                (adjustedTargetCalories tg) (t_proteinGrams tg) (t_carbsGrams tg)
                (adjustedFatGrams tg)
                (s_proteinPercent settings) (s_carbsPercent settings) (s_fatPercent settings))"

definition clearAlternative :: "Meal \<Rightarrow> Meal" where
  \<comment> \<open>the same meal with every \<open>isAlternative\<close> flag unset\<close>
  "clearAlternative meal = meal \<lparr> foods := map (\<lambda>f. f \<lparr> isAlternative := False \<rparr>) (foods meal) \<rparr>"

text \<open>Concrete foods, portions and plans for the examples.\<close>

definition ex_food :: "real \<Rightarrow> real \<Rightarrow> real \<Rightarrow> real \<Rightarrow> FoodItem" where
  "ex_food c p cb f =
     \<lparr> name_en = ''example food'', calories_per_100g = c, protein_g_per_100g = p,
       carbs_g_per_100g = cb, fat_g_per_100g = f, servingInfo = None, altMeasures = None \<rparr>"

definition ex_entry :: "string \<Rightarrow> real \<Rightarrow> bool \<Rightarrow> FoodEntry" where
  "ex_entry i q alt =
     \<lparr> entry_id = i, quantity = q, unit = Some ''g'', isAlternative = alt, parentId = None \<rparr>"

definition ex_meal :: "FoodEntry list \<Rightarrow> Meal" where
  "ex_meal fs = \<lparr> meal_id = ''m1'', meal_name = ''Lunch'', foods = fs \<rparr>"

definition ex_plan :: "Meal list \<Rightarrow> selected_foods \<Rightarrow> plan_result" where
  "ex_plan ms sf = \<lparr> plan_meals = ms, plan_selectedFoods = sf, plan_notes = [], plan_reasoning = [] \<rparr>"

definition ex_settings :: "real \<Rightarrow> real \<Rightarrow> real \<Rightarrow> DietSettings" where
  "ex_settings pp cp fp =
     \<lparr> s_proteinPercent = pp, s_carbsPercent = cp, s_fatPercent = fp, s_calorieAdjustment = 0,
       s_mealCount = 4, s_dietType = ''balanced'', s_restrictions = [], s_preferences = [],
       s_goals = ''maintenance'' \<rparr>"

definition ex_tg :: diet_targets where
  \<comment> \<open>targets that the example plan misses by 16 g of protein\<close>
  "ex_tg = \<lparr> adjustedTargetCalories = 400, t_proteinGrams = 56, t_carbsGrams = 40,
             adjustedFatGrams = 89 / 10, finalProteinCalories = 224,
             finalCarbsCalories = 160, finalFatCalories = 80, finalTotalCalories = 464 \<rparr>"

definition caloriesStep :: "selected_foods \<Rightarrow> real \<Rightarrow> FoodEntry \<Rightarrow> real" where
  \<comment> \<open>the calorie step of every totals loop, as written in \<open>finalTotals\<close>\<close>
  "caloriesStep sf cals food =
     (case sf (entry_id food) of
        None \<Rightarrow> cals
      | Some s \<Rightarrow>
          if quantity food = 0 then cals
          else cals + Math_round (calories_per_100g s * (quantity food / 100)))"

section \<open>Properties\<close>

subsection \<open>Target calculator\<close>

lemma Math_round_Ints: "Math_round x \<in> \<int>"
  by (simp add: Math_round_def)

lemma round_trip_4:
  assumes "k \<in> \<int>"
  shows "Math_round (Math_round ((k / 4) * 10) / 10 * 4) = k"
proof -
  from assms obtain z :: int where k: "k = of_int z" by (auto simp: Ints_def)
  show ?thesis unfolding Math_round_def k by simp linarith
qed

lemma round_trip_9_bound:
  "\<bar>Math_round (Math_round ((k / 9) * 10) / 10 * 9) - k\<bar> < 1"
  unfolding Math_round_def by linarith

lemma round_trip_9:
  assumes "k \<in> \<int>"
  shows "Math_round (Math_round ((k / 9) * 10) / 10 * 9) = k"
proof -
  from assms obtain z :: int where k: "k = of_int z" by (auto simp: Ints_def)
  show ?thesis unfolding Math_round_def k by simp linarith
qed

lemma macrosFromCalories_eq:
  "macrosFromCalories T pc cc fc =
     \<lparr> proteinGrams = Math_round ((pc / 4) * 10) / 10,
       carbsGrams = Math_round ((cc / 4) * 10) / 10,
       fatGrams = Math_round (((fc + (T - (pc + cc + fc))) / 9) * 10) / 10,
       proteinCalories = Math_round (Math_round ((pc / 4) * 10) / 10 * 4),
       carbsCalories = Math_round (Math_round ((cc / 4) * 10) / 10 * 4),
       fatCalories = Math_round (Math_round (((fc + (T - (pc + cc + fc))) / 9) * 10) / 10 * 9),
       totalCalories =
         Math_round (Math_round ((pc / 4) * 10) / 10 * 4)
         + Math_round (Math_round ((cc / 4) * 10) / 10 * 4)
         + Math_round (Math_round (((fc + (T - (pc + cc + fc))) / 9) * 10) / 10 * 9) \<rparr>"
  by (simp add: macrosFromCalories_def Let_def)

lemma targetsFromCalories_eq:
  "targetsFromCalories T pc cc fc =
     \<lparr> adjustedTargetCalories = T,
       t_proteinGrams = proteinGrams (macrosFromCalories T pc cc fc),
       t_carbsGrams = carbsGrams (macrosFromCalories T pc cc fc),
       adjustedFatGrams = fatGrams (macrosFromCalories T pc cc fc),
       finalProteinCalories = proteinCalories (macrosFromCalories T pc cc fc),
       finalCarbsCalories = carbsCalories (macrosFromCalories T pc cc fc),
       finalFatCalories = fatCalories (macrosFromCalories T pc cc fc),
       finalTotalCalories = totalCalories (macrosFromCalories T pc cc fc) \<rparr>"
  by (simp add: targetsFromCalories_def macrosFromCalories_def Let_def)

lemma macrosFromCalories_exact:
  assumes pcI: "pc \<in> \<int>" and ccI: "cc \<in> \<int>"
  shows "proteinCalories (macrosFromCalories T pc cc fc)
           = Math_round (proteinGrams (macrosFromCalories T pc cc fc) * 4)"
    and "carbsCalories (macrosFromCalories T pc cc fc)
           = Math_round (carbsGrams (macrosFromCalories T pc cc fc) * 4)"
    and "fatCalories (macrosFromCalories T pc cc fc)
           = Math_round (fatGrams (macrosFromCalories T pc cc fc) * 9)"
    and "proteinCalories (macrosFromCalories T pc cc fc) = pc"
    and "carbsCalories (macrosFromCalories T pc cc fc) = cc"
    and "totalCalories (macrosFromCalories T pc cc fc)
           = proteinCalories (macrosFromCalories T pc cc fc)
             + carbsCalories (macrosFromCalories T pc cc fc)
             + fatCalories (macrosFromCalories T pc cc fc)"
    and "\<bar>totalCalories (macrosFromCalories T pc cc fc) - T\<bar> < 1"
    and "T \<in> \<int> \<Longrightarrow> fatCalories (macrosFromCalories T pc cc fc) = T - pc - cc"
    and "T \<in> \<int> \<Longrightarrow> totalCalories (macrosFromCalories T pc cc fc) = T"
proof -
  define K where "K = fc + (T - (pc + cc + fc))"
  define pg where "pg = Math_round ((pc / 4) * 10) / 10"
  define cg where "cg = Math_round ((cc / 4) * 10) / 10"
  define fg where "fg = Math_round ((K / 9) * 10) / 10"
  have eq: "macrosFromCalories T pc cc fc =
              \<lparr> proteinGrams = pg, carbsGrams = cg, fatGrams = fg,
                proteinCalories = Math_round (pg * 4),
                carbsCalories = Math_round (cg * 4),
                fatCalories = Math_round (fg * 9),
                totalCalories = Math_round (pg * 4) + Math_round (cg * 4) + Math_round (fg * 9) \<rparr>"
    unfolding macrosFromCalories_eq pg_def cg_def fg_def K_def by (rule refl)
  have p: "Math_round (pg * 4) = pc"
    unfolding pg_def by (rule round_trip_4 [OF pcI])
  have c: "Math_round (cg * 4) = cc"
    unfolding cg_def by (rule round_trip_4 [OF ccI])
  have fb: "\<bar>Math_round (fg * 9) - K\<bar> < 1"
    unfolding fg_def by (rule round_trip_9_bound)
  have KT: "K = T - pc - cc" by (simp add: K_def)
  have fi: "Math_round (fg * 9) = K" if "T \<in> \<int>"
  proof -
    from that pcI ccI have "K \<in> \<int>" unfolding KT by simp
    then show ?thesis unfolding fg_def by (rule round_trip_9)
  qed
  show "proteinCalories (macrosFromCalories T pc cc fc)
           = Math_round (proteinGrams (macrosFromCalories T pc cc fc) * 4)"
    and "carbsCalories (macrosFromCalories T pc cc fc)
           = Math_round (carbsGrams (macrosFromCalories T pc cc fc) * 4)"
    and "fatCalories (macrosFromCalories T pc cc fc)
           = Math_round (fatGrams (macrosFromCalories T pc cc fc) * 9)"
    and "totalCalories (macrosFromCalories T pc cc fc)
           = proteinCalories (macrosFromCalories T pc cc fc)
             + carbsCalories (macrosFromCalories T pc cc fc)
             + fatCalories (macrosFromCalories T pc cc fc)"
    unfolding eq by simp_all
  show "proteinCalories (macrosFromCalories T pc cc fc) = pc"
    unfolding eq by (simp add: p)
  show "carbsCalories (macrosFromCalories T pc cc fc) = cc"
    unfolding eq by (simp add: c)
  show "\<bar>totalCalories (macrosFromCalories T pc cc fc) - T\<bar> < 1"
    unfolding eq using fb KT by (simp add: p c)
  show "fatCalories (macrosFromCalories T pc cc fc) = T - pc - cc" if "T \<in> \<int>"
    unfolding eq using fi [OF that] KT by simp
  show "totalCalories (macrosFromCalories T pc cc fc) = T" if "T \<in> \<int>"
    unfolding eq using fi [OF that] KT by (simp add: p c)
qed

text \<open>
  Claim C1 (as amended). Let \<open>pc\<close>, \<open>cc\<close> and \<open>fc\<close> be the whole numbers that the three
  calls of \<open>Math.round\<close> return for the protein, carbs and fat shares of the adjusted
  target \<open>base + adj\<close>, all of ordinary size (at most \<open>10^9\<close> kcal). Then in the result of
  \<open>calculateExactMacros\<close>, and in the targets of \<open>generateDietPlan\<close>, the final calories of
  each macro are \<open>Math.round(proteinGrams * 4)\<close>, \<open>Math.round(carbsGrams * 4)\<close> and
  \<open>Math.round(adjustedFatGrams * 9)\<close>; the first two are the shares \<open>pc\<close> and \<open>cc\<close>
  again; the sum of the three is less than 1 kcal away from the adjusted target; and when
  the adjusted target is a whole number of kcal, the fat calories are what the other two
  leave of it and the sum is the adjusted target exactly.

  Both functions return nothing else: whenever they pass their guard, the result is
  computed in this way from three whole shares, whichever whole number each share has
  been rounded to. They do pass their guard when the percentages are not negative and
  sum to 100 within 0.09, which leaves the binary sum of the source a margin of 0.01; at a
  distance of exactly 0.1 the outcome of the guard depends on the binary rounding, and
  nothing is said about it.
\<close>

theorem target_exactness:
  assumes "pc \<in> \<int>" and "cc \<in> \<int>" and "fc \<in> \<int>"
    and "\<bar>base + adj\<bar> \<le> 10 ^ 9" and "\<bar>pc\<bar> \<le> 10 ^ 9" and "\<bar>cc\<bar> \<le> 10 ^ 9" and "\<bar>fc\<bar> \<le> 10 ^ 9"
  shows "(let m = macrosFromCalories (base + adj) pc cc fc in
            proteinCalories m = Math_round (proteinGrams m * 4) \<and> proteinCalories m = pc
          \<and> carbsCalories m = Math_round (carbsGrams m * 4) \<and> carbsCalories m = cc
          \<and> fatCalories m = Math_round (fatGrams m * 9)
          \<and> totalCalories m = proteinCalories m + carbsCalories m + fatCalories m
          \<and> \<bar>proteinCalories m + carbsCalories m + fatCalories m - (base + adj)\<bar> < 1
          \<and> (base + adj \<in> \<int> \<longrightarrow>
                fatCalories m = base + adj - pc - cc
              \<and> proteinCalories m + carbsCalories m + fatCalories m = base + adj))
       \<and> (let tg = targetsFromCalories (base + adj) pc cc fc in
            adjustedTargetCalories tg = base + adj
          \<and> finalProteinCalories tg = Math_round (t_proteinGrams tg * 4)
          \<and> finalProteinCalories tg = pc
          \<and> finalCarbsCalories tg = Math_round (t_carbsGrams tg * 4)
          \<and> finalCarbsCalories tg = cc
          \<and> finalFatCalories tg = Math_round (adjustedFatGrams tg * 9)
          \<and> finalTotalCalories tg
               = finalProteinCalories tg + finalCarbsCalories tg + finalFatCalories tg
          \<and> \<bar>finalProteinCalories tg + finalCarbsCalories tg + finalFatCalories tg
               - (base + adj)\<bar> < 1
          \<and> (base + adj \<in> \<int> \<longrightarrow>
                finalFatCalories tg = base + adj - pc - cc
              \<and> finalProteinCalories tg + finalCarbsCalories tg + finalFatCalories tg
                  = base + adj))
       \<and> (calculateExactMacros (base + adj) pp cp fp = Inr m' \<longrightarrow>
            (\<exists>p c f. p \<in> \<int> \<and> c \<in> \<int> \<and> f \<in> \<int>
                     \<and> m' = macrosFromCalories (base + adj) p c f))
       \<and> (computeTargets base adj pp cp fp = Inr tg' \<longrightarrow>
            (\<exists>p c f. p \<in> \<int> \<and> c \<in> \<int> \<and> f \<in> \<int>
                     \<and> tg' = targetsFromCalories (base + adj) p c f))
       \<and> (0 \<le> pp \<and> 0 \<le> cp \<and> 0 \<le> fp \<and> \<bar>pp + cp + fp - 100\<bar> \<le> 9 / 100 \<longrightarrow>
            (\<exists>m. calculateExactMacros (base + adj) pp cp fp = Inr m)
          \<and> (\<exists>tg. computeTargets base adj pp cp fp = Inr tg))"
proof -
  let ?T = "base + adj"
  let ?m = "macrosFromCalories ?T pc cc fc"
  note e = macrosFromCalories_exact [OF assms(1) assms(2), of ?T fc]
  have t: "totalCalories ?m = proteinCalories ?m + carbsCalories ?m + fatCalories ?m"
    by (rule e(6))
  have b: "\<bar>proteinCalories ?m + carbsCalories ?m + fatCalories ?m - ?T\<bar> < 1"
    using e(7) unfolding t .
  have i: "?T \<in> \<int> \<longrightarrow> fatCalories ?m = ?T - pc - cc
                       \<and> proteinCalories ?m + carbsCalories ?m + fatCalories ?m = ?T"
    using e(8) e(9) unfolding t by blast
  have first: "proteinCalories ?m = Math_round (proteinGrams ?m * 4) \<and> proteinCalories ?m = pc
          \<and> carbsCalories ?m = Math_round (carbsGrams ?m * 4) \<and> carbsCalories ?m = cc
          \<and> fatCalories ?m = Math_round (fatGrams ?m * 9)
          \<and> totalCalories ?m = proteinCalories ?m + carbsCalories ?m + fatCalories ?m
          \<and> \<bar>proteinCalories ?m + carbsCalories ?m + fatCalories ?m - ?T\<bar> < 1
          \<and> (?T \<in> \<int> \<longrightarrow>
                fatCalories ?m = ?T - pc - cc
              \<and> proteinCalories ?m + carbsCalories ?m + fatCalories ?m = ?T)"
    using e(1) e(2) e(3) e(4) e(5) t b i by blast
  have third: "calculateExactMacros ?T pp cp fp = Inr m' \<longrightarrow>
            (\<exists>p c f. p \<in> \<int> \<and> c \<in> \<int> \<and> f \<in> \<int> \<and> m' = macrosFromCalories ?T p c f)"
    unfolding calculateExactMacros_def Let_def
    using Math_round_Ints by (auto split: if_splits)
  have fourth: "computeTargets base adj pp cp fp = Inr tg' \<longrightarrow>
            (\<exists>p c f. p \<in> \<int> \<and> c \<in> \<int> \<and> f \<in> \<int> \<and> tg' = targetsFromCalories ?T p c f)"
    unfolding computeTargets_def Let_def
    using Math_round_Ints by (auto split: if_splits)
  have second: "(let tg = targetsFromCalories ?T pc cc fc in
            adjustedTargetCalories tg = ?T
          \<and> finalProteinCalories tg = Math_round (t_proteinGrams tg * 4)
          \<and> finalProteinCalories tg = pc
          \<and> finalCarbsCalories tg = Math_round (t_carbsGrams tg * 4)
          \<and> finalCarbsCalories tg = cc
          \<and> finalFatCalories tg = Math_round (adjustedFatGrams tg * 9)
          \<and> finalTotalCalories tg
               = finalProteinCalories tg + finalCarbsCalories tg + finalFatCalories tg
          \<and> \<bar>finalProteinCalories tg + finalCarbsCalories tg + finalFatCalories tg - ?T\<bar> < 1
          \<and> (?T \<in> \<int> \<longrightarrow>
                finalFatCalories tg = ?T - pc - cc
              \<and> finalProteinCalories tg + finalCarbsCalories tg + finalFatCalories tg = ?T))"
    unfolding targetsFromCalories_eq Let_def diet_targets.select_convs using first by blast
  have fifth: "0 \<le> pp \<and> 0 \<le> cp \<and> 0 \<le> fp \<and> \<bar>pp + cp + fp - 100\<bar> \<le> 9 / 100 \<longrightarrow>
            (\<exists>m. calculateExactMacros ?T pp cp fp = Inr m)
          \<and> (\<exists>tg. computeTargets base adj pp cp fp = Inr tg)"
    unfolding calculateExactMacros_def computeTargets_def Let_def by auto
  from first second third fourth fifth show ?thesis
    unfolding Let_def by blast
qed

text \<open>
  The example of the specification: base 3000, adjustment -400, 40/35/25 percent. The
  shares are 1040, 910 and 650, and the final calories sum to 2600.
\<close>

theorem target_exactness_witness:
  "(1040::real) \<in> \<int> \<and> (910::real) \<in> \<int> \<and> (650::real) \<in> \<int>
   \<and> \<bar>3000 + (- 400) :: real\<bar> \<le> 10 ^ 9
   \<and> \<bar>1040 :: real\<bar> \<le> 10 ^ 9 \<and> \<bar>910 :: real\<bar> \<le> 10 ^ 9 \<and> \<bar>650 :: real\<bar> \<le> 10 ^ 9
   \<and> (3000 + (- 400) :: real) \<in> \<int>
   \<and> (0::real) \<le> 40 \<and> (0::real) \<le> 35 \<and> (0::real) \<le> 25
   \<and> \<bar>(40::real) + 35 + 25 - 100\<bar> \<le> 9 / 100
   \<and> calculateExactMacros (3000 + (- 400)) 40 35 25
       = Inr (macrosFromCalories (3000 + (- 400)) 1040 910 650)
   \<and> computeTargets 3000 (- 400) 40 35 25
       = Inr (targetsFromCalories (3000 + (- 400)) 1040 910 650)
   \<and> fatCalories (macrosFromCalories (3000 + (- 400)) 1040 910 650) = 650
   \<and> totalCalories (macrosFromCalories (3000 + (- 400)) 1040 910 650) = 2600
   \<and> finalTotalCalories (targetsFromCalories (3000 + (- 400)) 1040 910 650) = 2600
   \<and> (\<exists>p c f. p \<in> \<int> \<and> c \<in> \<int> \<and> f \<in> \<int>
        \<and> macrosFromCalories (3000 + (- 400)) 1040 910 650
            = macrosFromCalories (3000 + (- 400)) p c f)
   \<and> (\<exists>p c f. p \<in> \<int> \<and> c \<in> \<int> \<and> f \<in> \<int>
        \<and> targetsFromCalories (3000 + (- 400)) 1040 910 650
            = targetsFromCalories (3000 + (- 400)) p c f)
   \<and> (\<exists>m. calculateExactMacros (3000 + (- 400)) 40 35 25 = Inr m)
   \<and> (\<exists>tg. computeTargets 3000 (- 400) 40 35 25 = Inr tg)"
proof -
  have h: "(1040::real) \<in> \<int>" "(910::real) \<in> \<int>" "(650::real) \<in> \<int>"
    "\<bar>3000 + (- 400) :: real\<bar> \<le> 10 ^ 9"
    "\<bar>1040 :: real\<bar> \<le> 10 ^ 9" "\<bar>910 :: real\<bar> \<le> 10 ^ 9" "\<bar>650 :: real\<bar> \<le> 10 ^ 9"
    by simp_all
  have z: "(3000 + (- 400) :: real) \<in> \<int>" by simp
  have a: "calculateExactMacros (3000 + (- 400)) 40 35 25
             = Inr (macrosFromCalories (3000 + (- 400)) 1040 910 650)"
    by (simp add: calculateExactMacros_def Math_round_def Let_def)
  have b: "computeTargets 3000 (- 400) 40 35 25
             = Inr (targetsFromCalories (3000 + (- 400)) 1040 910 650)"
    by (simp add: computeTargets_def Math_round_def Let_def)
  from target_exactness [OF h, of 40 35 25 "macrosFromCalories (3000 + (- 400)) 1040 910 650"
      "targetsFromCalories (3000 + (- 400)) 1040 910 650"]
  show ?thesis
    unfolding Let_def using h z a b by simp
qed

text \<open>
  At 2650 kcal and 40/35/25 percent the source rounds the carbs share
  \<open>2650 * (35 / 100)\<close> to 927 (see above), so that its shares are 1060, 927 and 663.
  From them it returns 265 g, 231.8 g and 73.7 g, and final calories that sum to 2650.
\<close>

lemma macrosFromCalories_2650:
  "macrosFromCalories 2650 1060 927 663
     = \<lparr> proteinGrams = 265, carbsGrams = 1159 / 5, fatGrams = 737 / 10,
         proteinCalories = 1060, carbsCalories = 927, fatCalories = 663,
         totalCalories = 2650 \<rparr>"
  by (simp add: macrosFromCalories_def Math_round_def Let_def)

text \<open>
  Claim C1 as stated fails for a fractional target: with 2600.5 kcal and 40/35/25 percent
  the final calories are 1040, 910 and 651, which sum to 2601.
\<close>

theorem target_exactness_counterexample:
  "\<bar>(40::real) + 35 + 25 - 100\<bar> \<le> 1 / 10
   \<and> calculateExactMacros (5201 / 2) 40 35 25
       = Inr \<lparr> proteinGrams = 260, carbsGrams = 455 / 2, fatGrams = 723 / 10,
               proteinCalories = 1040, carbsCalories = 910, fatCalories = 651,
               totalCalories = 2601 \<rparr>
   \<and> (1040 + 910 + 651 :: real) \<noteq> 5201 / 2"
  by (simp add: calculateExactMacros_def macrosFromCalories_def Math_round_def Let_def)



subsection \<open>Validation engine\<close>

lemma percentOff_same: "percentOff (Fin p) p = False"
  by (simp add: percentOff_def js_minus_def)

lemma percentOff_NaN: "percentOff NaN p = False"
  by (simp add: percentOff_def js_minus_def)

lemma percentOfCalories_zero: "percentOfCalories 0 k 0 = NaN"
  by (simp add: percentOfCalories_def js_inf_def)

lemma percentOfCalories_inf:
  "g * k \<noteq> 0 \<Longrightarrow> percentOfCalories g k 0 = (if g * k > 0 then PosInf else NegInf)"
  by (auto simp: percentOfCalories_def js_inf_def)

lemma percentOff_inf: "percentOff PosInf p" "percentOff NegInf p"
  by (simp_all add: percentOff_def js_minus_def)

lemma validate_actualTotals:
  "actualTotals (validateDietPlanSpecifications meals0 sf tc tp tcb tf pp cp fp) =
     (let t = validationTotals meals0 sf in
      \<lparr> calories = calories t, protein = protein t, carbs = carbs t, fat = fat t,
        proteinPercent = percentOfCalories (protein t) 4 (calories t),
        carbsPercent = percentOfCalories (carbs t) 4 (calories t),
        fatPercent = percentOfCalories (fat t) 9 (calories t) \<rparr>)"
  by (simp add: validateDietPlanSpecifications_def Let_def)

lemma validate_errors:
  "errors (validateDietPlanSpecifications meals0 sf tc tp tcb tf pp cp fp) =
     (let a = actualTotals (validateDietPlanSpecifications meals0 sf tc tp tcb tf pp cp fp) in
        (if \<bar>calories a - tc\<bar> > 150
         then [CalorieDeviationTooHigh tc (calories a) \<bar>calories a - tc\<bar>] else [])
      @ (if \<bar>protein a - tp\<bar> > 15
         then [ProteinDeviationTooHigh tp (protein a) \<bar>protein a - tp\<bar>] else [])
      @ (if \<bar>carbs a - tcb\<bar> > 15
         then [CarbsDeviationTooHigh tcb (carbs a) \<bar>carbs a - tcb\<bar>] else [])
      @ (if \<bar>fat a - tf\<bar> > 15
         then [FatDeviationTooHigh tf (fat a) \<bar>fat a - tf\<bar>] else [])
      @ (if percentOff (proteinPercent a) pp
         then [ProteinPercentageOff pp (proteinPercent a)] else [])
      @ (if percentOff (carbsPercent a) cp
         then [CarbsPercentageOff cp (carbsPercent a)] else [])
      @ (if percentOff (fatPercent a) fp
         then [FatPercentageOff fp (fatPercent a)] else []))"
  by (simp add: validateDietPlanSpecifications_def Let_def)

lemma validate_isValid:
  "isValid (validateDietPlanSpecifications meals0 sf tc tp tcb tf pp cp fp) =
     (errors (validateDietPlanSpecifications meals0 sf tc tp tcb tf pp cp fp) = [])"
  by (simp add: validateDietPlanSpecifications_def Let_def)

text \<open>
  Claim C3. The seven dimensions of a validation are the calories, the grams of the three
  macros and their three percentages of the calories. If the actual totals equal the
  targets in all seven, the plan is valid. If the calories deviate by exactly 151 kcal
  the plan is invalid and \<open>errors\<close> holds the calorie message; if moreover the other
  six dimensions match, that message is the only one. \<open>isValid\<close> holds exactly when
  \<open>errors\<close> is empty.
\<close>

theorem validation_thresholds:
  "(let v = validateDietPlanSpecifications meals0 sf tc tp tcb tf pp cp fp;
        a = actualTotals v
    in (calories a = tc \<and> protein a = tp \<and> carbs a = tcb \<and> fat a = tf
          \<and> proteinPercent a = Fin pp \<and> carbsPercent a = Fin cp \<and> fatPercent a = Fin fp
        \<longrightarrow> isValid v)
     \<and> (\<bar>calories a - tc\<bar> = 151
        \<longrightarrow> \<not> isValid v \<and> CalorieDeviationTooHigh tc (calories a) 151 \<in> set (errors v))
     \<and> (\<bar>calories a - tc\<bar> = 151 \<and> protein a = tp \<and> carbs a = tcb \<and> fat a = tf
          \<and> proteinPercent a = Fin pp \<and> carbsPercent a = Fin cp \<and> fatPercent a = Fin fp
        \<longrightarrow> errors v = [CalorieDeviationTooHigh tc (calories a) 151])
     \<and> (isValid v \<longleftrightarrow> errors v = []))"
  unfolding Let_def
proof (intro conjI impI)
  let ?v = "validateDietPlanSpecifications meals0 sf tc tp tcb tf pp cp fp"
  let ?a = "actualTotals ?v"
  show "isValid ?v" 
    if "calories ?a = tc \<and> protein ?a = tp \<and> carbs ?a = tcb \<and> fat ?a = tf
          \<and> proteinPercent ?a = Fin pp \<and> carbsPercent ?a = Fin cp \<and> fatPercent ?a = Fin fp"
    using that by (simp add: validate_isValid validate_errors [of meals0 sf tc tp tcb tf pp cp fp] Let_def percentOff_same)
  show "\<not> isValid ?v" if "\<bar>calories ?a - tc\<bar> = 151"
    using that by (simp add: validate_isValid validate_errors [of meals0 sf tc tp tcb tf pp cp fp] Let_def)
  show "CalorieDeviationTooHigh tc (calories ?a) 151 \<in> set (errors ?v)" if "\<bar>calories ?a - tc\<bar> = 151"
    using that by (simp add: validate_errors [of meals0 sf tc tp tcb tf pp cp fp] Let_def)
  show "errors ?v = [CalorieDeviationTooHigh tc (calories ?a) 151]"
    if "\<bar>calories ?a - tc\<bar> = 151 \<and> protein ?a = tp \<and> carbs ?a = tcb \<and> fat ?a = tf
          \<and> proteinPercent ?a = Fin pp \<and> carbsPercent ?a = Fin cp \<and> fatPercent ?a = Fin fp"
    using that by (simp add: validate_errors [of meals0 sf tc tp tcb tf pp cp fp] Let_def percentOff_same)
  show "isValid ?v \<longleftrightarrow> errors ?v = []" by (rule validate_isValid)
qed

lemma ex_validation_totals:
  "validationTotals [ex_meal [ex_entry ''a'' 100 False]] [''a'' \<mapsto> ex_food 400 40 40 (89 / 10)]
     = \<lparr> calories = 400, protein = 40, carbs = 40, fat = 89 / 10 \<rparr>"
  by (simp add: validationTotals_def addPortionRounded_def zero_totals_def ex_meal_def
      ex_entry_def ex_food_def Math_round_def)

text \<open>
  One portion of 100 g of a food with 400 kcal, 40 g protein, 40 g carbs and 8.9 g fat
  per 100 g: validated against its own totals it is accepted, against 551 kcal it is
  rejected with the calorie message alone.
\<close>

theorem validation_thresholds_witness:
  "isValid (validateDietPlanSpecifications [ex_meal [ex_entry ''a'' 100 False]]
              [''a'' \<mapsto> ex_food 400 40 40 (89 / 10)] 400 40 40 (89 / 10) 40 40 20)
   \<and> errors (validateDietPlanSpecifications [ex_meal [ex_entry ''a'' 100 False]]
              [''a'' \<mapsto> ex_food 400 40 40 (89 / 10)] 551 40 40 (89 / 10) 40 40 20)
       = [CalorieDeviationTooHigh 551 400 151]"
proof -
  let ?P = "[ex_meal [ex_entry ''a'' 100 False]]"
  let ?sf = "[''a'' \<mapsto> ex_food 400 40 40 (89 / 10)]"
  have a: "actualTotals (validateDietPlanSpecifications ?P ?sf tc tp tcb tf pp cp fp)
             = \<lparr> calories = 400, protein = 40, carbs = 40, fat = 89 / 10,
                 proteinPercent = Fin 40, carbsPercent = Fin 40, fatPercent = Fin 20 \<rparr>"
    for tc tp tcb tf pp cp fp
    by (simp add: validate_actualTotals ex_validation_totals percentOfCalories_def Math_round_def)
  from validation_thresholds [of ?P ?sf 400 40 40 "89 / 10" 40 40 20]
  have v1: "isValid (validateDietPlanSpecifications ?P ?sf 400 40 40 (89 / 10) 40 40 20)"
    unfolding Let_def a by simp
  from validation_thresholds [of ?P ?sf 551 40 40 "89 / 10" 40 40 20]
  have v2: "errors (validateDietPlanSpecifications ?P ?sf 551 40 40 (89 / 10) 40 40 20)
              = [CalorieDeviationTooHigh 551 400 151]"
    unfolding Let_def a by simp
  from v1 v2 show ?thesis by simp
qed

lemma validationTotals_unresolved:
  assumes "\<forall>meal \<in> set meals0. \<forall>food \<in> set (foods meal). sf (entry_id food) = None"
  shows "validationTotals meals0 sf = zero_totals"
proof -
  have inner: "foldl (addPortionRounded sf) t fs = t"
    if "\<forall>food \<in> set fs. sf (entry_id food) = None" for t fs
    using that by (induction fs arbitrary: t) (simp_all add: addPortionRounded_def)
  have outer: "foldl (\<lambda>t meal. foldl (addPortionRounded sf) t (foods meal)) t ms = t"
    if "\<forall>meal \<in> set ms. \<forall>food \<in> set (foods meal). sf (entry_id food) = None" for t ms
    using that by (induction ms arbitrary: t) (simp_all add: inner)
  show ?thesis unfolding validationTotals_def using assms by (rule outer)
qed

text \<open>
  Claim C10 (as amended). A plan none of whose portions resolves in \<open>selectedFoods\<close>
  has all four totals 0. When the calories and the three macro totals are all 0, the
  three percentages are \<open>NaN\<close> and \<open>errors\<close> holds no percentage message, so only the
  calorie and gram checks can reject the plan. When the calories are 0 and a macro total
  is not, that macro's percentage is \<open>Infinity\<close> or \<open>-Infinity\<close> and its percentage
  message is in \<open>errors\<close>.
\<close>

theorem zero_calorie_percentages:
  "(let t = validationTotals meals0 sf;
        v = validateDietPlanSpecifications meals0 sf tc tp tcb tf pp cp fp;
        a = actualTotals v
    in ((\<forall>meal \<in> set meals0. \<forall>food \<in> set (foods meal). sf (entry_id food) = None)
          \<longrightarrow> t = zero_totals)
     \<and> (calories t = 0 \<and> protein t = 0 \<and> carbs t = 0 \<and> fat t = 0
          \<longrightarrow> proteinPercent a = NaN \<and> carbsPercent a = NaN \<and> fatPercent a = NaN
              \<and> (\<forall>e \<in> set (errors v). \<not> isPercentageError e))
     \<and> (calories t = 0 \<and> protein t \<noteq> 0
          \<longrightarrow> (proteinPercent a = PosInf \<or> proteinPercent a = NegInf)
              \<and> ProteinPercentageOff pp (proteinPercent a) \<in> set (errors v))
     \<and> (calories t = 0 \<and> carbs t \<noteq> 0
          \<longrightarrow> (carbsPercent a = PosInf \<or> carbsPercent a = NegInf)
              \<and> CarbsPercentageOff cp (carbsPercent a) \<in> set (errors v))
     \<and> (calories t = 0 \<and> fat t \<noteq> 0
          \<longrightarrow> (fatPercent a = PosInf \<or> fatPercent a = NegInf)
              \<and> FatPercentageOff fp (fatPercent a) \<in> set (errors v)))"
  unfolding Let_def
proof (intro conjI impI)
  let ?t = "validationTotals meals0 sf"
  let ?v = "validateDietPlanSpecifications meals0 sf tc tp tcb tf pp cp fp"
  let ?a = "actualTotals ?v"
  show "?t = zero_totals"
    if "\<forall>meal \<in> set meals0. \<forall>food \<in> set (foods meal). sf (entry_id food) = None"
    using that by (rule validationTotals_unresolved)
  assume z: "calories ?t = 0 \<and> protein ?t = 0 \<and> carbs ?t = 0 \<and> fat ?t = 0"
  then show "proteinPercent ?a = NaN" "carbsPercent ?a = NaN" "fatPercent ?a = NaN"
    by (simp_all add: validate_actualTotals Let_def percentOfCalories_zero)
  then show "\<forall>e \<in> set (errors ?v). \<not> isPercentageError e"
    by (auto simp: validate_errors [of meals0 sf tc tp tcb tf pp cp fp] Let_def percentOff_NaN
        split: if_splits)
next
  let ?t = "validationTotals meals0 sf"
  let ?v = "validateDietPlanSpecifications meals0 sf tc tp tcb tf pp cp fp"
  let ?a = "actualTotals ?v"
  assume z: "calories ?t = 0 \<and> protein ?t \<noteq> 0"
  then have p: "proteinPercent ?a = (if protein ?t * 4 > 0 then PosInf else NegInf)"
    by (simp add: validate_actualTotals Let_def percentOfCalories_inf)
  then show "proteinPercent ?a = PosInf \<or> proteinPercent ?a = NegInf" by auto
  with p show "ProteinPercentageOff pp (proteinPercent ?a) \<in> set (errors ?v)"
    by (auto simp: validate_errors [of meals0 sf tc tp tcb tf pp cp fp] Let_def percentOff_inf)
next
  let ?t = "validationTotals meals0 sf"
  let ?v = "validateDietPlanSpecifications meals0 sf tc tp tcb tf pp cp fp"
  let ?a = "actualTotals ?v"
  assume z: "calories ?t = 0 \<and> carbs ?t \<noteq> 0"
  then have p: "carbsPercent ?a = (if carbs ?t * 4 > 0 then PosInf else NegInf)"
    by (simp add: validate_actualTotals Let_def percentOfCalories_inf)
  then show "carbsPercent ?a = PosInf \<or> carbsPercent ?a = NegInf" by auto
  with p show "CarbsPercentageOff cp (carbsPercent ?a) \<in> set (errors ?v)"
    by (auto simp: validate_errors [of meals0 sf tc tp tcb tf pp cp fp] Let_def percentOff_inf)
next
  let ?t = "validationTotals meals0 sf"
  let ?v = "validateDietPlanSpecifications meals0 sf tc tp tcb tf pp cp fp"
  let ?a = "actualTotals ?v"
  assume z: "calories ?t = 0 \<and> fat ?t \<noteq> 0"
  then have p: "fatPercent ?a = (if fat ?t * 9 > 0 then PosInf else NegInf)"
    by (simp add: validate_actualTotals Let_def percentOfCalories_inf)
  then show "fatPercent ?a = PosInf \<or> fatPercent ?a = NegInf" by auto
  with p show "FatPercentageOff fp (fatPercent ?a) \<in> set (errors ?v)"
    by (auto simp: validate_errors [of meals0 sf tc tp tcb tf pp cp fp] Let_def percentOff_inf)
qed

lemma ex_lettuce_totals:
  "validationTotals [ex_meal [ex_entry ''a'' 10 False]] [''a'' \<mapsto> ex_food 4 1 0 0]
     = \<lparr> calories = 0, protein = 1 / 10, carbs = 0, fat = 0 \<rparr>"
  by (simp add: validationTotals_def addPortionRounded_def zero_totals_def ex_meal_def
      ex_entry_def ex_food_def Math_round_def)

text \<open>
  Claim C10 as stated fails: 10 g of a food with 4 kcal and 1 g protein per 100 g
  contribute \<open>Math.round(0.4) = 0\<close> kcal and 0.1 g protein, so the protein percentage
  is \<open>Infinity\<close>, not \<open>NaN\<close>, and its message is added.
\<close>

theorem zero_calorie_percentages_counterexample:
  "calories (validationTotals [ex_meal [ex_entry ''a'' 10 False]] [''a'' \<mapsto> ex_food 4 1 0 0]) = 0
   \<and> validateDietPlanSpecifications [ex_meal [ex_entry ''a'' 10 False]]
        [''a'' \<mapsto> ex_food 4 1 0 0] 0 0 0 0 30 40 30
      = \<lparr> isValid = False, errors = [ProteinPercentageOff 30 PosInf],
          actualTotals = \<lparr> calories = 0, protein = 1 / 10, carbs = 0, fat = 0,
                           proteinPercent = PosInf, carbsPercent = NaN, fatPercent = NaN \<rparr> \<rparr>"
  by (simp add: validateDietPlanSpecifications_def Let_def ex_lettuce_totals
      percentOfCalories_def percentOff_def js_minus_def js_inf_def)

lemma ex_zero_kcal_totals:
  "validationTotals [ex_meal [ex_entry ''a'' 10 False]] [''a'' \<mapsto> ex_food 4 1 1 1]
     = \<lparr> calories = 0, protein = 1 / 10, carbs = 1 / 10, fat = 1 / 10 \<rparr>"
  by (simp add: validationTotals_def addPortionRounded_def zero_totals_def ex_meal_def
      ex_entry_def ex_food_def Math_round_def Let_def)

text \<open>
  With an empty \<open>selectedFoods\<close> the percentages are \<open>NaN\<close> and only the four
  absolute checks report. 10 g of a food with 4 kcal and 1 g of each macro per 100 g
  give 0 kcal and 0.1 g of each macro: all three percentages are \<open>Infinity\<close> and all
  three percentage messages are reported.
\<close>

theorem zero_calorie_percentages_witness:
  "validationTotals [ex_meal [ex_entry ''a'' 10 False]] Map.empty = zero_totals
   \<and> proteinPercent (actualTotals (validateDietPlanSpecifications [ex_meal [ex_entry ''a'' 10 False]]
        Map.empty 2000 150 200 67 30 40 30)) = NaN
   \<and> errors (validateDietPlanSpecifications [ex_meal [ex_entry ''a'' 10 False]]
        Map.empty 2000 150 200 67 30 40 30)
      = [CalorieDeviationTooHigh 2000 0 2000, ProteinDeviationTooHigh 150 0 150,
         CarbsDeviationTooHigh 200 0 200, FatDeviationTooHigh 67 0 67]
   \<and> errors (validateDietPlanSpecifications [ex_meal [ex_entry ''a'' 10 False]]
        [''a'' \<mapsto> ex_food 4 1 1 1] 0 0 0 0 30 40 30)
      = [ProteinPercentageOff 30 PosInf, CarbsPercentageOff 40 PosInf, FatPercentageOff 30 PosInf]"
proof -
  let ?P = "[ex_meal [ex_entry ''a'' 10 False]]"
  let ?sf = "[''a'' \<mapsto> ex_food 4 1 1 1]"
  have t0: "validationTotals ?P Map.empty = zero_totals"
    using zero_calorie_percentages [of ?P Map.empty 2000 150 200 67 30 40 30]
    unfolding Let_def by simp
  have n: "proteinPercent (actualTotals (validateDietPlanSpecifications ?P Map.empty 2000 150 200 67 30 40 30)) = NaN"
    using zero_calorie_percentages [of ?P Map.empty 2000 150 200 67 30 40 30]
    unfolding Let_def by (simp add: t0 zero_totals_def)
  have e: "errors (validateDietPlanSpecifications ?P Map.empty 2000 150 200 67 30 40 30)
      = [CalorieDeviationTooHigh 2000 0 2000, ProteinDeviationTooHigh 150 0 150,
         CarbsDeviationTooHigh 200 0 200, FatDeviationTooHigh 67 0 67]"
    by (simp add: validate_errors [of ?P Map.empty 2000 150 200 67 30 40 30] Let_def
        validate_actualTotals t0 zero_totals_def percentOfCalories_zero percentOff_NaN)
  have a: "actualTotals (validateDietPlanSpecifications ?P ?sf 0 0 0 0 30 40 30)
             = \<lparr> calories = 0, protein = 1 / 10, carbs = 1 / 10, fat = 1 / 10,
                 proteinPercent = PosInf, carbsPercent = PosInf, fatPercent = PosInf \<rparr>"
    by (simp add: validate_actualTotals ex_zero_kcal_totals percentOfCalories_def js_inf_def)
  have i: "ProteinPercentageOff 30 PosInf
             \<in> set (errors (validateDietPlanSpecifications ?P ?sf 0 0 0 0 30 40 30))
         \<and> CarbsPercentageOff 40 PosInf
             \<in> set (errors (validateDietPlanSpecifications ?P ?sf 0 0 0 0 30 40 30))
         \<and> FatPercentageOff 30 PosInf
             \<in> set (errors (validateDietPlanSpecifications ?P ?sf 0 0 0 0 30 40 30))"
    using zero_calorie_percentages [of ?P ?sf 0 0 0 0 30 40 30]
    unfolding Let_def a by (simp add: ex_zero_kcal_totals)
  have e2: "errors (validateDietPlanSpecifications ?P ?sf 0 0 0 0 30 40 30)
      = [ProteinPercentageOff 30 PosInf, CarbsPercentageOff 40 PosInf, FatPercentageOff 30 PosInf]"
    using i by (simp add: validate_errors [of ?P ?sf 0 0 0 0 30 40 30] Let_def a percentOff_inf)
  from t0 n e e2 show ?thesis by simp
qed

lemma addFoodEntry_alternative: "isAlternative f \<Longrightarrow> addFoodEntry sf t f = t"
  by (simp add: addFoodEntry_def)

lemma foldl_addFoodEntry_filter:
  "foldl (addFoodEntry sf) t (filter (\<lambda>f. \<not> isAlternative f) fs) = foldl (addFoodEntry sf) t fs"
  by (induction fs arbitrary: t) (simp_all add: addFoodEntry_alternative)

lemma addPortionRounded_flag:
  "addPortionRounded sf t (f \<lparr> isAlternative := b \<rparr>) = addPortionRounded sf t f"
  by (simp add: addPortionRounded_def split: option.splits)

lemma foldl_addPortionRounded_flags:
  "foldl (addPortionRounded sf) t (map (\<lambda>f. f \<lparr> isAlternative := False \<rparr>) fs)
     = foldl (addPortionRounded sf) t fs"
  by (induction fs arbitrary: t) (simp_all add: addPortionRounded_flag)

lemma validationTotals_clearAlternative:
  "validationTotals (map clearAlternative meals0) sf = validationTotals meals0 sf"
proof -
  have "foldl (\<lambda>t meal. foldl (addPortionRounded sf) t (foods meal)) t (map clearAlternative ms)
          = foldl (\<lambda>t meal. foldl (addPortionRounded sf) t (foods meal)) t ms" for t ms
    by (induction ms arbitrary: t)
       (simp_all add: clearAlternative_def foldl_addPortionRounded_flags)
  then show ?thesis by (simp add: validationTotals_def)
qed

text \<open>
  Claim C2 (as amended). The meal totals of the meal builder (\<open>calculateMealTotals\<close>)
  skip every portion marked \<open>isAlternative\<close>: they equal the totals of the meal without
  its alternative portions, and adding an alternative portion of any quantity anywhere
  in a meal leaves them unchanged. \<open>validateDietPlanSpecifications\<close> does not read the
  flag: its totals, and its whole result, are the same as on the plan with every flag
  unset, so a resolved alternative portion is summed like any other.
\<close>

theorem alternative_portions:
  "calculateMealTotals sf meal
     = calculateMealTotals sf (meal \<lparr> foods := filter (\<lambda>f. \<not> isAlternative f) (foods meal) \<rparr>)
   \<and> (isAlternative alt \<longrightarrow>
        calculateMealTotals sf (meal \<lparr> foods := before @ alt # after \<rparr>)
          = calculateMealTotals sf (meal \<lparr> foods := before @ after \<rparr>))
   \<and> validationTotals (map clearAlternative meals0) sf = validationTotals meals0 sf
   \<and> validateDietPlanSpecifications (map clearAlternative meals0) sf tc tp tcb tf pp cp fp
        = validateDietPlanSpecifications meals0 sf tc tp tcb tf pp cp fp"
proof (intro conjI impI)
  show "calculateMealTotals sf meal
     = calculateMealTotals sf (meal \<lparr> foods := filter (\<lambda>f. \<not> isAlternative f) (foods meal) \<rparr>)"
    by (simp add: calculateMealTotals_def foldl_addFoodEntry_filter)
  show "calculateMealTotals sf (meal \<lparr> foods := before @ alt # after \<rparr>)
          = calculateMealTotals sf (meal \<lparr> foods := before @ after \<rparr>)"
    if "isAlternative alt"
    using that by (simp add: calculateMealTotals_def addFoodEntry_alternative)
  show "validationTotals (map clearAlternative meals0) sf = validationTotals meals0 sf"
    by (rule validationTotals_clearAlternative)
  show "validateDietPlanSpecifications (map clearAlternative meals0) sf tc tp tcb tf pp cp fp
        = validateDietPlanSpecifications meals0 sf tc tp tcb tf pp cp fp"
    by (simp only: validateDietPlanSpecifications_def validationTotals_clearAlternative)
qed

text \<open>
  Claim C2 as stated fails for the validation totals: an alternative portion of 100 g of a
  100 kcal food raises the validated calories from 100 to 200.
\<close>

theorem alternative_portions_counterexample:
  "isAlternative (ex_entry ''b'' 100 True)
   \<and> calories (actualTotals (validateDietPlanSpecifications
        [ex_meal [ex_entry ''a'' 100 False, ex_entry ''b'' 100 True]]
        [''a'' \<mapsto> ex_food 100 10 10 2, ''b'' \<mapsto> ex_food 100 10 10 2] 100 10 10 2 40 40 18)) = 200
   \<and> calories (actualTotals (validateDietPlanSpecifications
        [ex_meal [ex_entry ''a'' 100 False]]
        [''a'' \<mapsto> ex_food 100 10 10 2, ''b'' \<mapsto> ex_food 100 10 10 2] 100 10 10 2 40 40 18)) = 100"
  by (simp add: validate_actualTotals validationTotals_def addPortionRounded_def zero_totals_def
      ex_meal_def ex_entry_def ex_food_def Math_round_def Let_def)

text \<open>The meal builder's totals of the same two plans agree.\<close>

theorem alternative_portions_witness:
  "isAlternative (ex_entry ''b'' 100 True)
   \<and> calculateMealTotals [''a'' \<mapsto> ex_food 100 10 10 2, ''b'' \<mapsto> ex_food 100 10 10 2]
        (ex_meal [ex_entry ''a'' 100 False, ex_entry ''b'' 100 True])
      = calculateMealTotals [''a'' \<mapsto> ex_food 100 10 10 2, ''b'' \<mapsto> ex_food 100 10 10 2]
        (ex_meal [ex_entry ''a'' 100 False])"
proof -
  have h: "isAlternative (ex_entry ''b'' 100 True)" by (simp add: ex_entry_def)
  from alternative_portions [of "[''a'' \<mapsto> ex_food 100 10 10 2, ''b'' \<mapsto> ex_food 100 10 10 2]"
      "ex_meal []" "ex_entry ''b'' 100 True" "[ex_entry ''a'' 100 False]" "[]"] h
  show ?thesis by (simp add: ex_meal_def)
qed

subsection \<open>NNLS solver\<close>

lemma nnls_update_invariant:
  assumes "\<forall>v \<in> set x. 0 \<le> v"
  shows "\<forall>v \<in> set (fst (nnls_update AtA Atb n (x, mc) i)). 0 \<le> v"
proof -
  define newVal0 where
    "newVal0 = x ! i + - nnls_gradient AtA Atb n i x
                 / (if AtA ! i ! i > 1 / 10 ^ 9 then AtA ! i ! i else 1 / 10 ^ 9)"
  define newVal where "newVal = (if newVal0 < 0 then 0 else newVal0)"
  have nn: "0 \<le> newVal" by (simp add: newVal_def)
  have eq: "fst (nnls_update AtA Atb n (x, mc) i) = x[i := newVal]"
    by (simp add: nnls_update_def Let_def newVal_def newVal0_def)
  have "set (x[i := newVal]) \<subseteq> insert newVal (set x)"
    by (rule set_update_subset_insert)
  with assms nn show ?thesis unfolding eq by auto
qed

lemma nnls_update_length: "length (fst (nnls_update AtA Atb n (x, mc) i)) = length x"
  by (simp add: nnls_update_def Let_def)

lemma nnls_fold_invariant:
  assumes "\<forall>v \<in> set (fst st). 0 \<le> v"
  shows "\<forall>v \<in> set (fst (foldl (nnls_update AtA Atb n) st is)). 0 \<le> v"
  using assms
proof (induction "is" arbitrary: st)
  case Nil
  then show ?case by simp
next
  case (Cons i "is")
  obtain x mc where st: "st = (x, mc)" by (cases st)
  from Cons.prems have "\<forall>v \<in> set (fst (nnls_update AtA Atb n st i)). 0 \<le> v"
    unfolding st by (simp add: nnls_update_invariant)
  then show ?case by (simp add: Cons.IH)
qed

lemma nnls_fold_length:
  "length (fst (foldl (nnls_update AtA Atb n) st is)) = length (fst st)"
proof (induction "is" arbitrary: st)
  case Nil
  then show ?case by simp
next
  case (Cons i "is")
  obtain x mc where st: "st = (x, mc)" by (cases st)
  show ?case by (simp add: Cons.IH) (simp add: st nnls_update_length)
qed

lemma nnls_sweep_invariant:
  "\<forall>v \<in> set x. 0 \<le> v \<Longrightarrow> \<forall>v \<in> set (fst (nnls_sweep AtA Atb n x)). 0 \<le> v"
  unfolding nnls_sweep_def by (rule nnls_fold_invariant) simp

lemma nnls_sweep_length: "length (fst (nnls_sweep AtA Atb n x)) = length x"
  unfolding nnls_sweep_def by (simp add: nnls_fold_length)

lemma nnls_iterate_invariant:
  "\<forall>v \<in> set x. 0 \<le> v \<Longrightarrow> \<forall>v \<in> set (nnls_iterate AtA Atb n k x). 0 \<le> v"
proof (induction k arbitrary: x)
  case 0
  then show ?case by simp
next
  case (Suc k)
  obtain x' mc where sw: "nnls_sweep AtA Atb n x = (x', mc)" by (cases "nnls_sweep AtA Atb n x")
  from nnls_sweep_invariant [OF Suc.prems, of AtA Atb n] sw
  have x': "\<forall>v \<in> set x'. 0 \<le> v" by simp
  show ?case using x' Suc.IH [OF x'] by (simp add: sw)
qed

lemma nnls_iterate_length: "length (nnls_iterate AtA Atb n k x) = length x"
proof (induction k arbitrary: x)
  case 0
  then show ?case by simp
next
  case (Suc k)
  obtain x' mc where sw: "nnls_sweep AtA Atb n x = (x', mc)" by (cases "nnls_sweep AtA Atb n x")
  from nnls_sweep_length [of AtA Atb n x] sw have "length x' = length x" by simp
  then show ?case using Suc.IH [of x'] by (simp add: sw)
qed

lemma nnls_solution_nonneg: "\<forall>v \<in> set (nnls_solution A b maxIter). 0 \<le> v"
  unfolding nnls_solution_def by (rule nnls_iterate_invariant) simp

lemma nnls_solution_length: "length (nnls_solution A b maxIter) = nnls_cols A"
  unfolding nnls_solution_def by (simp add: nnls_iterate_length)

lemma foldl_plus_sum_list: "foldl (\<lambda>s v. s + v) a xs = a + sum_list xs" for a :: real
  by (induction xs arbitrary: a) simp_all

lemma sum_list_all_zero: "\<forall>v \<in> set xs. v = 0 \<Longrightarrow> sum_list xs = 0" for xs :: "real list"
  by (induction xs) simp_all

lemma sum_list_pos_witness:
  "\<forall>v \<in> set xs. 0 \<le> v \<Longrightarrow> 0 < sum_list xs \<Longrightarrow> \<exists>v \<in> set xs. 0 < v" for xs :: "real list"
proof (induction xs)
  case Nil
  then show ?case by simp
next
  case (Cons a xs)
  show ?case
  proof (cases "0 < a")
    case True
    then show ?thesis by simp
  next
    case False
    with Cons.prems have "a = 0" by simp
    with Cons show ?thesis by simp
  qed
qed

text \<open>
  Claim C4. For a rectangular matrix \<open>A\<close>, a vector \<open>b\<close> that covers its rows and any
  iteration cap: a vector returned by \<open>nnlsSolve\<close> has one component per column and no
  negative component. When \<open>A\<close> has columns and the iterate computed by the loop is
  the all-zero vector, \<open>nnlsSolve\<close> returns \<open>null\<close>; conversely a vector returned for
  such an \<open>A\<close> is that iterate and has a positive component.
\<close>

theorem nnls_nonnegative:
  assumes "rectangular A" and "length A \<le> length b"
  shows "(\<forall>x. nnlsSolve A b maxIter = Some x \<longrightarrow>
            length x = nnls_cols A \<and> (\<forall>v \<in> set x. 0 \<le> v))
       \<and> (nnls_cols A \<noteq> 0 \<and> (\<forall>v \<in> set (nnls_solution A b maxIter). v = 0)
            \<longrightarrow> nnlsSolve A b maxIter = None)
       \<and> (nnls_cols A \<noteq> 0 \<longrightarrow>
            (\<forall>x. nnlsSolve A b maxIter = Some x \<longrightarrow>
               x = nnls_solution A b maxIter \<and> (\<exists>v \<in> set x. 0 < v)))"
proof (intro conjI allI impI)
  fix x assume s: "nnlsSolve A b maxIter = Some x"
  then have x: "x = [] \<and> nnls_cols A = 0 \<or> x = nnls_solution A b maxIter"
    by (auto simp: nnlsSolve_def Let_def split: if_splits)
  then show "length x = nnls_cols A"
    using nnls_solution_length [of A b maxIter] by auto
  from x show "\<forall>v \<in> set x. 0 \<le> v"
    using nnls_solution_nonneg [of A b maxIter] by auto
next
  assume z: "nnls_cols A \<noteq> 0 \<and> (\<forall>v \<in> set (nnls_solution A b maxIter). v = 0)"
  then have "sum_list (nnls_solution A b maxIter) = 0" by (simp add: sum_list_all_zero)
  with z show "nnlsSolve A b maxIter = None"
    by (simp add: nnlsSolve_def Let_def foldl_plus_sum_list)
next
  fix x assume n: "nnls_cols A \<noteq> 0" and s: "nnlsSolve A b maxIter = Some x"
  then have x: "x = nnls_solution A b maxIter" and p: "0 < sum_list x"
    by (auto simp: nnlsSolve_def Let_def foldl_plus_sum_list split: if_splits)
  from x show "x = nnls_solution A b maxIter" .
  from nnls_solution_nonneg [of A b maxIter] x have "\<forall>v \<in> set x. 0 \<le> v" by simp
  then show "\<exists>v \<in> set x. 0 < v" using p by (rule sum_list_pos_witness)
qed

lemma ex_nnls_1: "nnls_solution [[1]] [2] 500 = [2]"
  by (simp add: nnls_solution_def nnls_cols_def nnls_AtA_def nnls_Atb_def nnls_At_def
      nnls_sweep_def nnls_update_def nnls_gradient_def Let_def numeral_nat)

lemma ex_nnls_2: "nnls_solution [[1]] [- 2] 500 = [0]"
  by (simp add: nnls_solution_def nnls_cols_def nnls_AtA_def nnls_Atb_def nnls_At_def
      nnls_sweep_def nnls_update_def nnls_gradient_def Let_def numeral_nat)

text \<open>
  With one equation \<open>x = 2\<close> the solver returns \<open>[2]\<close>; with \<open>x = -2\<close> the iterate
  stays \<open>[0]\<close> and the solver returns \<open>null\<close>.
\<close>

theorem nnls_nonnegative_witness:
  "rectangular [[1]] \<and> length [[1 :: real]] \<le> length [2 :: real]
   \<and> nnlsSolve [[1]] [2] 500 = Some [2] \<and> (0 :: real) \<le> 2
   \<and> nnls_cols [[1]] \<noteq> 0 \<and> nnls_solution [[1]] [- 2] 500 = [0]
   \<and> nnlsSolve [[1]] [- 2] 500 = None"
proof -
  have r: "rectangular [[1]]" by (simp add: rectangular_def nnls_cols_def)
  have c: "nnls_cols [[1]] \<noteq> 0" by (simp add: nnls_cols_def)
  have l: "length [[1 :: real]] \<le> length [2 :: real]" "length [[1 :: real]] \<le> length [- 2 :: real]"
    by simp_all
  have s: "nnlsSolve [[1]] [2] 500 = Some [2]"
    by (simp add: nnlsSolve_def ex_nnls_1 nnls_cols_def)
  have z: "\<forall>v \<in> set (nnls_solution [[1]] [- 2] 500). v = 0" by (simp add: ex_nnls_2)
  from nnls_nonnegative [OF r l(1), of 500] s have "\<forall>v \<in> set [2 :: real]. 0 \<le> v" by blast
  then have p: "(0 :: real) \<le> 2" by simp
  from nnls_nonnegative [OF r l(2), of 500] c z have n: "nnlsSolve [[1]] [- 2] 500 = None" by blast
  from r l s p c n show ?thesis by (simp add: ex_nnls_2)
qed

text \<open>
  Claim C5 (as amended). When \<open>A\<close> has no columns (\<open>n = 0\<close>) \<open>nnlsSolve\<close> returns at
  once, whatever \<open>b\<close> and the iteration cap are, and what it returns is the empty
  vector \<open>[]\<close>, not \<open>null\<close>. Nothing is computed before the return, so no division
  takes place.
\<close>

theorem nnls_empty_candidates:
  assumes "nnls_cols A = 0"
  shows "nnlsSolve A b maxIter = Some []"
  using assms by (simp add: nnlsSolve_def)

text \<open>The three empty rows that a caller would build from no candidates.\<close>

theorem nnls_empty_candidates_witness:
  "nnls_cols [[], [], []] = 0 \<and> nnlsSolve [[], [], []] [1, 2, 3] 500 = Some []"
proof -
  have h: "nnls_cols [[], [], []] = 0" by (simp add: nnls_cols_def)
  from nnls_empty_candidates [OF h, of "[1, 2, 3]" 500] h show ?thesis by simp
qed

text \<open>Claim C5 as stated fails: the result for no candidates is not \<open>null\<close>.\<close>

theorem nnls_empty_candidates_counterexample:
  "nnls_cols [[], [], []] = 0 \<and> nnlsSolve [[], [], []] [1, 2, 3] 500 \<noteq> None"
  by (simp add: nnlsSolve_def nnls_cols_def)

subsection \<open>Generation and retry orchestrator\<close>

lemma generationLoop_ok:
  "attempt \<le> Suc maxAttempts \<Longrightarrow>
     (let run = generationLoop initial adjust tg settings attempt previousAttempts in
        attemptsPerformed run \<le> maxAttempts
      \<and> (\<forall>r. outcome run = Inr r \<longrightarrow>
             passesStrictValidation tg settings r
             \<and> (initial = Some r \<or> (\<exists>a h. adjust a h = Some r))
             \<and> (\<exists>rec \<in> set (history run). isValid (attempt_validation rec)))
      \<and> (\<forall>e. outcome run = Inl e \<longrightarrow>
             e = AttemptsExhausted maxAttempts \<and> attemptsPerformed run = maxAttempts))"
proof (induction initial adjust tg settings attempt previousAttempts rule: generationLoop.induct)
  case (1 initial adjust tg settings attempt previousAttempts)
  let ?proposal = "if attempt = 1 then initial else adjust attempt previousAttempts"
  show ?case
  proof (cases "attempt \<le> maxAttempts")
    case False
    with "1.prems" have "attempt = Suc maxAttempts" by simp
    then show ?thesis
      by (subst generationLoop.simps) (simp add: Let_def)
  next
    case le: True
    show ?thesis
    proof (cases ?proposal)
      case None
      from le have "attempt + 1 \<le> Suc maxAttempts" by simp
      from "1.IH"(1) [OF le None this] 
      show ?thesis
        using le None by (subst generationLoop.simps) simp
    next
      case (Some result)
      define validation where
        "validation = validateDietPlanSpecifications (plan_meals result) (plan_selectedFoods result)
                     (adjustedTargetCalories tg) (t_proteinGrams tg) (t_carbsGrams tg)
                     (adjustedFatGrams tg)
                     (s_proteinPercent settings) (s_carbsPercent settings) (s_fatPercent settings)"
      define pushed where
        "pushed = previousAttempts @ [\<lparr> attempt_no = attempt, attempt_result = result,
                         attempt_validation = validation \<rparr>]"
      have src: "initial = Some result \<or> (\<exists>a h. adjust a h = Some result)"
        using Some by (auto split: if_splits)
      show ?thesis
      proof (cases "isValid validation")
        case True
        have "generationLoop initial adjust tg settings attempt previousAttempts
                = \<lparr> outcome = Inr result, attemptsPerformed = attempt, history = pushed \<rparr>"
          using le Some True
          by (subst generationLoop.simps) (simp add: Let_def validation_def pushed_def)
        then show ?thesis
          using True le src
          by (simp add: Let_def passesStrictValidation_def validation_def pushed_def)
      next
        case invalid: False
        show ?thesis
        proof (cases "attempt = maxAttempts")
          case True
          have "generationLoop initial adjust tg settings attempt previousAttempts
                = \<lparr> outcome = Inl (AttemptsExhausted maxAttempts), attemptsPerformed = attempt,
                    history = pushed \<rparr>"
            using le Some invalid True
            by (subst generationLoop.simps) (simp add: Let_def validation_def pushed_def)
          then show ?thesis using True by (simp add: Let_def)
        next
          case False
          from le have next_le: "attempt + 1 \<le> Suc maxAttempts" by simp
          have eq: "generationLoop initial adjust tg settings attempt previousAttempts
                = generationLoop initial adjust tg settings (attempt + 1) pushed"
            using le Some invalid False
            by (subst generationLoop.simps) (simp add: Let_def validation_def pushed_def)
          from "1.IH"(2) [OF le Some validation_def pushed_def invalid False next_le]
          show ?thesis unfolding eq .
        qed
      qed
    qed
  qed
qed

text \<open>
  Claim C6. The retry loop of \<open>generateDietPlan\<close>, started at attempt 1 with an empty
  history, makes at most 10 attempts, and a plan it returns has passed the strict
  validation. If no attempt of the run was validated (no record of the history is
  valid), or if the proposer never yields a plan that passes the validation, the loop
  makes all 10 attempts and ends with the error that reports the 10 attempts, not with a
  plan. For \<open>generateDietPlan\<close> as a whole: it makes at most 10 attempts, a plan it
  returns has passed the validation against the computed targets, and when the service
  is available, the targets are computed and the proposer never yields a plan that
  passes, it throws that error after 10 attempts.
\<close>

theorem retry_termination:
  "(let run = generationLoop initial adjust tg settings 1 [] in
      attemptsPerformed run \<le> 10
    \<and> (\<forall>r. outcome run = Inr r \<longrightarrow> passesStrictValidation tg settings r)
    \<and> ((\<forall>rec \<in> set (history run). \<not> isValid (attempt_validation rec))
         \<longrightarrow> outcome run = Inl (AttemptsExhausted 10) \<and> attemptsPerformed run = 10)
    \<and> ((\<forall>r. initial = Some r \<longrightarrow> \<not> passesStrictValidation tg settings r)
         \<and> (\<forall>a h r. adjust a h = Some r \<longrightarrow> \<not> passesStrictValidation tg settings r)
         \<longrightarrow> outcome run = Inl (AttemptsExhausted 10) \<and> attemptsPerformed run = 10))
   \<and> (let g = generateDietPlan aiAvailable initial adjust targetCalories dietSettings deficitSurplus;
            st = normalizeSettings dietSettings
        in attemptsUsed g \<le> 10
         \<and> (\<forall>r. generated g = Inr (Some r) \<longrightarrow>
               (\<exists>tg'. computeTargets targetCalories deficitSurplus
                         (s_proteinPercent st) (s_carbsPercent st) (s_fatPercent st) = Inr tg'
                     \<and> passesStrictValidation tg' st r))
         \<and> (\<forall>tg'. aiAvailable
                 \<and> computeTargets targetCalories deficitSurplus
                       (s_proteinPercent st) (s_carbsPercent st) (s_fatPercent st) = Inr tg'
                 \<and> (\<forall>r. initial = Some r \<longrightarrow> \<not> passesStrictValidation tg' st r)
                 \<and> (\<forall>a h r. adjust a h = Some r \<longrightarrow> \<not> passesStrictValidation tg' st r)
               \<longrightarrow> generated g = Inl (AttemptsExhausted 10) \<and> attemptsUsed g = 10))"
proof -
  have ok: "attemptsPerformed (generationLoop initial adjust tg' st' 1 []) \<le> maxAttempts
      \<and> (\<forall>r. outcome (generationLoop initial adjust tg' st' 1 []) = Inr r \<longrightarrow>
             passesStrictValidation tg' st' r
             \<and> (initial = Some r \<or> (\<exists>a h. adjust a h = Some r))
             \<and> (\<exists>rec \<in> set (history (generationLoop initial adjust tg' st' 1 [])).
                   isValid (attempt_validation rec)))
      \<and> (\<forall>e. outcome (generationLoop initial adjust tg' st' 1 []) = Inl e \<longrightarrow>
             e = AttemptsExhausted maxAttempts
             \<and> attemptsPerformed (generationLoop initial adjust tg' st' 1 []) = maxAttempts)"
    for tg' st'
    using generationLoop_ok [of 1 initial adjust tg' st' "[]"]
    by (simp add: maxAttempts_def Let_def)
  let ?run = "generationLoop initial adjust tg settings 1 []"
  have sum_cases: "(\<exists>e. outcome ?run = Inl e) \<or> (\<exists>r. outcome ?run = Inr r)"
    by (cases "outcome ?run") auto
  have a: "attemptsPerformed ?run \<le> 10"
    using ok [of tg settings] by (simp add: maxAttempts_def)
  have b: "\<forall>r. outcome ?run = Inr r \<longrightarrow> passesStrictValidation tg settings r"
    using ok [of tg settings] by (simp add: Let_def)
  have c: "outcome ?run = Inl (AttemptsExhausted 10) \<and> attemptsPerformed ?run = 10"
    if "\<forall>rec \<in> set (history ?run). \<not> isValid (attempt_validation rec)"
    using ok [of tg settings] that sum_cases unfolding maxAttempts_def by blast
  have d: "outcome ?run = Inl (AttemptsExhausted 10) \<and> attemptsPerformed ?run = 10"
    if "(\<forall>r. initial = Some r \<longrightarrow> \<not> passesStrictValidation tg settings r)
         \<and> (\<forall>a h r. adjust a h = Some r \<longrightarrow> \<not> passesStrictValidation tg settings r)"
    using ok [of tg settings] that sum_cases unfolding maxAttempts_def by blast
  let ?g = "generateDietPlan aiAvailable initial adjust targetCalories dietSettings deficitSurplus"
  let ?st = "normalizeSettings dietSettings"
  let ?ct = "computeTargets targetCalories deficitSurplus
               (s_proteinPercent ?st) (s_carbsPercent ?st) (s_fatPercent ?st)"
  have e: "attemptsUsed ?g \<le> 10"
  proof (cases ?ct)
    case (Inl err)
    then show ?thesis by (simp add: generateDietPlan_def Let_def)
  next
    case (Inr tg')
    with ok [of tg' ?st] show ?thesis
      by (simp add: generateDietPlan_def Let_def maxAttempts_def)
  qed
  have f: "\<exists>tg'. ?ct = Inr tg' \<and> passesStrictValidation tg' ?st r" if "generated ?g = Inr (Some r)" for r
  proof (cases ?ct)
    case (Inl err)
    with that show ?thesis by (simp add: generateDietPlan_def Let_def split: if_splits)
  next
    case (Inr tg')
    with that have "outcome (generationLoop initial adjust tg' ?st 1 []) = Inr r"
      by (simp add: generateDietPlan_def Let_def split: if_splits sum.splits)
    with ok [of tg' ?st] have "passesStrictValidation tg' ?st r" by (simp add: Let_def)
    with Inr show ?thesis by simp
  qed
  have x: "generated ?g = Inl (AttemptsExhausted 10) \<and> attemptsUsed ?g = 10"
    if "aiAvailable \<and> ?ct = Inr tg'
          \<and> (\<forall>r. initial = Some r \<longrightarrow> \<not> passesStrictValidation tg' ?st r)
          \<and> (\<forall>a h r. adjust a h = Some r \<longrightarrow> \<not> passesStrictValidation tg' ?st r)" for tg'
  proof -
    let ?run' = "generationLoop initial adjust tg' ?st 1 []"
    have "(\<exists>e. outcome ?run' = Inl e) \<or> (\<exists>r. outcome ?run' = Inr r)"
      by (cases "outcome ?run'") auto
    with ok [of tg' ?st] that
    have "outcome ?run' = Inl (AttemptsExhausted 10) \<and> attemptsPerformed ?run' = 10"
      unfolding maxAttempts_def by blast
    with that show ?thesis by (simp add: generateDietPlan_def Let_def)
  qed
  show ?thesis unfolding Let_def using a b c d e f x by blast
qed

lemma ex_plan_rejected:
  "\<not> passesStrictValidation ex_tg (ex_settings 40 40 20)
        (ex_plan [ex_meal [ex_entry ''a'' 100 False]] [''a'' \<mapsto> ex_food 400 40 40 (89 / 10)])"
  by (simp add: passesStrictValidation_def ex_tg_def ex_settings_def ex_plan_def
      validate_isValid validate_errors Let_def validate_actualTotals ex_validation_totals)

lemma ex_computeTargets:
  "computeTargets 400 0 40 40 20
     = Inr \<lparr> adjustedTargetCalories = 400, t_proteinGrams = 40, t_carbsGrams = 40,
             adjustedFatGrams = 89 / 10, finalProteinCalories = 160,
             finalCarbsCalories = 160, finalFatCalories = 80, finalTotalCalories = 400 \<rparr>"
  by (simp add: computeTargets_def targetsFromCalories_def Math_round_def Let_def)

lemma ex_computeTargets_2000:
  "computeTargets 2000 0 40 40 20
     = Inr \<lparr> adjustedTargetCalories = 2000, t_proteinGrams = 200, t_carbsGrams = 200,
             adjustedFatGrams = 444 / 10, finalProteinCalories = 800,
             finalCarbsCalories = 800, finalFatCalories = 400, finalTotalCalories = 2000 \<rparr>"
  by (simp add: computeTargets_def targetsFromCalories_def Math_round_def Let_def)

lemma ex_plan_accepted:
  "passesStrictValidation
     \<lparr> adjustedTargetCalories = 400, t_proteinGrams = 40, t_carbsGrams = 40,
       adjustedFatGrams = 89 / 10, finalProteinCalories = 160,
       finalCarbsCalories = 160, finalFatCalories = 80, finalTotalCalories = 400 \<rparr>
     (ex_settings 40 40 20)
     (ex_plan [ex_meal [ex_entry ''a'' 100 False]] [''a'' \<mapsto> ex_food 400 40 40 (89 / 10)])"
  by (simp add: passesStrictValidation_def ex_settings_def ex_plan_def
      validate_isValid validate_errors Let_def validate_actualTotals ex_validation_totals
      percentOfCalories_def percentOff_def js_minus_def Math_round_def)

lemma ex_generate_success:
  "generateDietPlan True
     (Some (ex_plan [ex_meal [ex_entry ''a'' 100 False]] [''a'' \<mapsto> ex_food 400 40 40 (89 / 10)]))
     (\<lambda>a h. None) 400 (SettingsObject (ex_settings 40 40 20)) 0
   = \<lparr> generated = Inr (Some (ex_plan [ex_meal [ex_entry ''a'' 100 False]]
                                      [''a'' \<mapsto> ex_food 400 40 40 (89 / 10)])),
       attemptsUsed = 1 \<rparr>"
proof -
  have st: "normalizeSettings (SettingsObject (ex_settings 40 40 20)) = ex_settings 40 40 20"
    by (simp add: normalizeSettings_def)
  have pc: "s_proteinPercent (ex_settings 40 40 20) = 40" "s_carbsPercent (ex_settings 40 40 20) = 40"
    "s_fatPercent (ex_settings 40 40 20) = 20"
    by (simp_all add: ex_settings_def)
  show ?thesis
    unfolding generateDietPlan_def Let_def st pc ex_computeTargets
    using ex_plan_accepted
    by (subst generationLoop.simps) (simp add: maxAttempts_def Let_def passesStrictValidation_def)
qed

text \<open>
  A proposer that always returns the same plan, 16 g short of the protein target: the
  loop runs to attempt 10 and fails. A proposer whose first plan meets the targets
  computed from 400 kcal and 40/40/20 percent: \<open>generateDietPlan\<close> returns that plan,
  which passes the validation. The same plan proposed every time against 2000 kcal:
  \<open>generateDietPlan\<close> throws after 10 attempts.
\<close>

theorem retry_termination_witness:
  "outcome (generationLoop
              (Some (ex_plan [ex_meal [ex_entry ''a'' 100 False]] [''a'' \<mapsto> ex_food 400 40 40 (89 / 10)]))
              (\<lambda>a h. Some (ex_plan [ex_meal [ex_entry ''a'' 100 False]] [''a'' \<mapsto> ex_food 400 40 40 (89 / 10)]))
              ex_tg (ex_settings 40 40 20) 1 [])
     = Inl (AttemptsExhausted 10)
   \<and> attemptsPerformed (generationLoop
              (Some (ex_plan [ex_meal [ex_entry ''a'' 100 False]] [''a'' \<mapsto> ex_food 400 40 40 (89 / 10)]))
              (\<lambda>a h. Some (ex_plan [ex_meal [ex_entry ''a'' 100 False]] [''a'' \<mapsto> ex_food 400 40 40 (89 / 10)]))
              ex_tg (ex_settings 40 40 20) 1 []) = 10
   \<and> generated (generateDietPlan True
        (Some (ex_plan [ex_meal [ex_entry ''a'' 100 False]] [''a'' \<mapsto> ex_food 400 40 40 (89 / 10)]))
        (\<lambda>a h. None) 400 (SettingsObject (ex_settings 40 40 20)) 0)
      = Inr (Some (ex_plan [ex_meal [ex_entry ''a'' 100 False]] [''a'' \<mapsto> ex_food 400 40 40 (89 / 10)]))
   \<and> passesStrictValidation
        \<lparr> adjustedTargetCalories = 400, t_proteinGrams = 40, t_carbsGrams = 40,
          adjustedFatGrams = 89 / 10, finalProteinCalories = 160,
          finalCarbsCalories = 160, finalFatCalories = 80, finalTotalCalories = 400 \<rparr>
        (ex_settings 40 40 20)
        (ex_plan [ex_meal [ex_entry ''a'' 100 False]] [''a'' \<mapsto> ex_food 400 40 40 (89 / 10)])
   \<and> generateDietPlan True
        (Some (ex_plan [ex_meal [ex_entry ''a'' 100 False]] [''a'' \<mapsto> ex_food 400 40 40 (89 / 10)]))
        (\<lambda>a h. Some (ex_plan [ex_meal [ex_entry ''a'' 100 False]] [''a'' \<mapsto> ex_food 400 40 40 (89 / 10)]))
        2000 (SettingsObject (ex_settings 40 40 20)) 0
      = \<lparr> generated = Inl (AttemptsExhausted 10), attemptsUsed = 10 \<rparr>"
proof -
  let ?p = "ex_plan [ex_meal [ex_entry ''a'' 100 False]] [''a'' \<mapsto> ex_food 400 40 40 (89 / 10)]"
  let ?st = "ex_settings 40 40 20"
  have h: "(\<forall>r. Some ?p = Some r \<longrightarrow> \<not> passesStrictValidation ex_tg ?st r)
         \<and> (\<forall>a h r. (\<lambda>a h. Some ?p) a h = Some r \<longrightarrow> \<not> passesStrictValidation ex_tg ?st r)"
    using ex_plan_rejected by simp
  from retry_termination [of "Some ?p" "\<lambda>a h. Some ?p" ex_tg ?st] h
  have exhausted:
    "outcome (generationLoop (Some ?p) (\<lambda>a h. Some ?p) ex_tg ?st 1 []) = Inl (AttemptsExhausted 10)
     \<and> attemptsPerformed (generationLoop (Some ?p) (\<lambda>a h. Some ?p) ex_tg ?st 1 []) = 10"
    unfolding Let_def by blast
  have g: "generated (generateDietPlan True (Some ?p) (\<lambda>a h. None) 400 (SettingsObject ?st) 0)
             = Inr (Some ?p)"
    by (simp add: ex_generate_success)
  have n: "normalizeSettings (SettingsObject ?st) = ?st" by (simp add: normalizeSettings_def)
  have pc: "s_proteinPercent ?st = 40" "s_carbsPercent ?st = 40" "s_fatPercent ?st = 20"
    by (simp_all add: ex_settings_def)
  from retry_termination [of "Some ?p" "\<lambda>a h. None" ex_tg ?st True 400 "SettingsObject ?st" 0] g
  have "\<exists>tg'. computeTargets 400 0 (s_proteinPercent ?st) (s_carbsPercent ?st) (s_fatPercent ?st) = Inr tg'
              \<and> passesStrictValidation tg' ?st ?p"
    unfolding Let_def n by blast
  then have accepted:
    "passesStrictValidation
        \<lparr> adjustedTargetCalories = 400, t_proteinGrams = 40, t_carbsGrams = 40,
          adjustedFatGrams = 89 / 10, finalProteinCalories = 160,
          finalCarbsCalories = 160, finalFatCalories = 80, finalTotalCalories = 400 \<rparr> ?st ?p"
    unfolding pc ex_computeTargets by blast
  have rej: "\<not> passesStrictValidation
        \<lparr> adjustedTargetCalories = 2000, t_proteinGrams = 200, t_carbsGrams = 200,
          adjustedFatGrams = 444 / 10, finalProteinCalories = 800,
          finalCarbsCalories = 800, finalFatCalories = 400, finalTotalCalories = 2000 \<rparr> ?st ?p"
    by (simp add: passesStrictValidation_def ex_settings_def ex_plan_def
        validate_isValid validate_errors Let_def validate_actualTotals ex_validation_totals)
  from retry_termination [of "Some ?p" "\<lambda>a h. Some ?p" ex_tg ?st True 2000 "SettingsObject ?st" 0] rej
  have "generated (generateDietPlan True (Some ?p) (\<lambda>a h. Some ?p) 2000 (SettingsObject ?st) 0)
          = Inl (AttemptsExhausted 10)
        \<and> attemptsUsed (generateDietPlan True (Some ?p) (\<lambda>a h. Some ?p) 2000 (SettingsObject ?st) 0)
          = 10"
    unfolding Let_def n pc ex_computeTargets_2000 by blast
  then have thrown: "generateDietPlan True (Some ?p) (\<lambda>a h. Some ?p) 2000 (SettingsObject ?st) 0
      = \<lparr> generated = Inl (AttemptsExhausted 10), attemptsUsed = 10 \<rparr>"
    by (cases "generateDietPlan True (Some ?p) (\<lambda>a h. Some ?p) 2000 (SettingsObject ?st) 0") simp
  from exhausted g accepted thrown show ?thesis by blast
qed

subsection \<open>Macro correction loop and greedy redistribution\<close>

lemma round_tenth_le_one:
  assumes "d \<le> 1"
  shows "\<not> Math_round (d * 10) / 10 > 1"
proof -
  have "d * 10 + 1 / 2 < 11" using assms by simp
  then have "\<lfloor>d * 10 + 1 / 2\<rfloor> < 11" by (simp add: floor_less_iff)
  then have "\<lfloor>d * 10 + 1 / 2\<rfloor> \<le> 10" by simp
  then have "real_of_int \<lfloor>d * 10 + 1 / 2\<rfloor> \<le> 10" by linarith
  then show ?thesis by (simp add: Math_round_def)
qed

text \<open>
  Claim C8. When each macro deficit (target minus the plan's total, as the loop computes
  it) is at most 1 g and the calories deviate from the target by at most 50 kcal,
  \<open>macroCorrectionLoop\<close> returns the meals and \<open>selectedFoods\<close> it was given, with
  \<open>correctionMealAdded = false\<close>; it fetches no profile, so the profile cache is
  unchanged too.
\<close>

theorem correction_noop:
  assumes "protein targets - protein (planTotals meals0 sf) \<le> 1"
    and "carbs targets - carbs (planTotals meals0 sf) \<le> 1"
    and "fat targets - fat (planTotals meals0 sf) \<le> 1"
    and "\<bar>calories targets - calories (planTotals meals0 sf)\<bar> \<le> 50"
  shows "macroCorrectionLoop search cache correctionMealId pseudoId meals0 sf targets opts
           = (Returned \<lparr> cr_meals = meals0, cr_selectedFoods = sf,
                          correctionMealAdded = False, details = WithinTolerance \<rparr>, cache)"
proof -
  let ?d = "correctionDeficit meals0 sf targets"
  have p: "\<not> d_protein ?d > 1"
    using round_tenth_le_one [OF assms(1)] by (simp add: correctionDeficit_def Let_def)
  have c: "\<not> d_carbs ?d > 1"
    using round_tenth_le_one [OF assms(2)] by (simp add: correctionDeficit_def Let_def)
  have f: "\<not> d_fat ?d > 1"
    using round_tenth_le_one [OF assms(3)] by (simp add: correctionDeficit_def Let_def)
  have k: "\<bar>d_calories ?d\<bar> \<le> 50"
    using assms(4) by (simp add: correctionDeficit_def Let_def)
  show ?thesis
    unfolding macroCorrectionLoop_def Let_def using p c f k by simp
qed

lemma ex_plan_totals:
  "planTotals [ex_meal [ex_entry ''f-chicken'' 100 False, ex_entry ''f-rice'' 200 False]]
     [''f-chicken'' \<mapsto> ex_food 165 31 0 (18 / 5), ''f-rice'' \<mapsto> ex_food 123 (27 / 10) (128 / 5) 1]
   = \<lparr> calories = 411, protein = 182 / 5, carbs = 256 / 5, fat = 28 / 5 \<rparr>"
  by (simp add: planTotals_def addPortion_def zero_totals_def ex_meal_def ex_entry_def
      ex_food_def Math_round_def)

text \<open>
  The plan of the repository's test (100 g chicken breast, 200 g brown rice: 411 kcal,
  36.4 g protein, 51.2 g carbs, 5.6 g fat) against targets it already meets.
\<close>

theorem correction_noop_witness:
  "fst (macroCorrectionLoop (\<lambda>n. None) Map.empty ''correction-meal-1'' (\<lambda>k. ''correction-food'')
     [ex_meal [ex_entry ''f-chicken'' 100 False, ex_entry ''f-rice'' 200 False]]
     [''f-chicken'' \<mapsto> ex_food 165 31 0 (18 / 5), ''f-rice'' \<mapsto> ex_food 123 (27 / 10) (128 / 5) 1]
     \<lparr> calories = 450, protein = 37, carbs = 52, fat = 6 \<rparr>
     \<lparr> maxCandidates = Some 3, maxCorrectionCalories = Some 800 \<rparr>)
   = Returned \<lparr> cr_meals = [ex_meal [ex_entry ''f-chicken'' 100 False, ex_entry ''f-rice'' 200 False]],
                 cr_selectedFoods = [''f-chicken'' \<mapsto> ex_food 165 31 0 (18 / 5),
                                     ''f-rice'' \<mapsto> ex_food 123 (27 / 10) (128 / 5) 1],
                 correctionMealAdded = False, details = WithinTolerance \<rparr>"
proof -
  let ?m = "[ex_meal [ex_entry ''f-chicken'' 100 False, ex_entry ''f-rice'' 200 False]]"
  let ?sf = "[''f-chicken'' \<mapsto> ex_food 165 31 0 (18 / 5), ''f-rice'' \<mapsto> ex_food 123 (27 / 10) (128 / 5) 1]"
  let ?t = "\<lparr> calories = 450, protein = 37, carbs = 52, fat = 6 \<rparr>"
  have h1: "protein ?t - protein (planTotals ?m ?sf) \<le> 1" unfolding ex_plan_totals by simp
  have h2: "carbs ?t - carbs (planTotals ?m ?sf) \<le> 1" unfolding ex_plan_totals by simp
  have h3: "fat ?t - fat (planTotals ?m ?sf) \<le> 1" unfolding ex_plan_totals by simp
  have h4: "\<bar>calories ?t - calories (planTotals ?m ?sf)\<bar> \<le> 50" unfolding ex_plan_totals by simp
  from correction_noop [OF h1 h2 h3 h4] show ?thesis by simp
qed

lemma calories_addPortion: "calories (addPortion sf t food) = caloriesStep sf (calories t) food"
  by (simp add: addPortion_def caloriesStep_def Let_def split: option.splits)

lemma finalCalories_inner:
  "foldl (caloriesStep sf) (calories t) fs = calories (foldl (addPortion sf) t fs)"
proof (induction fs arbitrary: t)
  case Nil
  then show ?case by simp
next
  case (Cons a fs)
  have "foldl (caloriesStep sf) (calories t) (a # fs)
          = foldl (caloriesStep sf) (calories (addPortion sf t a)) fs"
    by (simp add: calories_addPortion)
  also have "\<dots> = calories (foldl (addPortion sf) (addPortion sf t a) fs)"
    by (rule Cons.IH)
  finally show ?case by simp
qed

lemma finalCalories_outer:
  "foldl (\<lambda>cals meal. foldl (caloriesStep sf) cals (foods meal)) (calories t) ms
     = calories (foldl (\<lambda>t meal. foldl (addPortion sf) t (foods meal)) t ms)"
proof (induction ms arbitrary: t)
  case Nil
  then show ?case by simp
next
  case (Cons m ms)
  have "foldl (\<lambda>cals meal. foldl (caloriesStep sf) cals (foods meal)) (calories t) (m # ms)
          = foldl (\<lambda>cals meal. foldl (caloriesStep sf) cals (foods meal))
              (calories (foldl (addPortion sf) t (foods m))) ms"
    by (simp add: finalCalories_inner)
  also have "\<dots> = calories (foldl (\<lambda>t meal. foldl (addPortion sf) t (foods meal))
                                (foldl (addPortion sf) t (foods m)) ms)"
    by (rule Cons.IH)
  finally show ?case by simp
qed

lemma finalCalories_planTotals: "finalCalories sf ms = calories (planTotals ms sf)"
proof -
  have "finalCalories sf ms
          = foldl (\<lambda>cals meal. foldl (caloriesStep sf) cals (foods meal)) (calories zero_totals) ms"
    by (simp add: finalCalories_def caloriesStep_def [abs_def] zero_totals_def)
  also have "\<dots> = calories (planTotals ms sf)"
    unfolding planTotals_def by (rule finalCalories_outer)
  finally show ?thesis .
qed

text \<open>
  Claim C9. \<open>redistributePortionsForMacros\<close> returns \<open>null\<close> when the calories of the
  plan it is given deviate from the target by more than 200 kcal, and when the calories
  of the plan after the adjustment rounds do. So a plan it returns is the plan after the
  rounds, and both the given plan and the returned one are within 200 kcal of the target.
\<close>

theorem redistribute_calorie_guard:
  "(\<bar>calories (planTotals meals0 sf) - calories targets\<bar> > 200
      \<longrightarrow> redistributePortionsForMacros meals0 sf targets opts = None)
   \<and> (\<bar>calories (planTotals (roundsResult meals0 sf targets opts) sf) - calories targets\<bar> > 200
      \<longrightarrow> redistributePortionsForMacros meals0 sf targets opts = None)
   \<and> (\<forall>newMeals. redistributePortionsForMacros meals0 sf targets opts = Some newMeals
      \<longrightarrow> newMeals = roundsResult meals0 sf targets opts
          \<and> \<bar>calories (planTotals meals0 sf) - calories targets\<bar> \<le> 200
          \<and> \<bar>calories (planTotals newMeals sf) - calories targets\<bar> \<le> 200)"
  by (auto simp: redistributePortionsForMacros_def computeTotals_def Let_def
      finalCalories_planTotals split: if_splits)

lemma ex_round_1:
  "roundsResult [ex_meal [ex_entry ''f-chicken'' 100 False, ex_entry ''f-rice'' 200 False]]
     [''f-chicken'' \<mapsto> ex_food 165 31 0 (18 / 5), ''f-rice'' \<mapsto> ex_food 123 (27 / 10) (128 / 5) 1]
     \<lparr> calories = 211, protein = 120, carbs = 50, fat = 6 \<rparr>
     \<lparr> maxPercentChangePerFood = None, iterations = Some 1 \<rparr>
   = [ex_meal [ex_entry ''f-chicken'' 120 False, ex_entry ''f-rice'' 200 False]]"
  by code_simp

lemma ex_plan_totals_120:
  "planTotals [ex_meal [ex_entry ''f-chicken'' 120 False, ex_entry ''f-rice'' 200 False]]
     [''f-chicken'' \<mapsto> ex_food 165 31 0 (18 / 5), ''f-rice'' \<mapsto> ex_food 123 (27 / 10) (128 / 5) 1]
   = \<lparr> calories = 444, protein = 213 / 5, carbs = 256 / 5, fat = 158 / 25 \<rparr>"
  by (simp add: planTotals_def addPortion_def zero_totals_def ex_meal_def ex_entry_def
      ex_food_def Math_round_def)

lemma ex_redistribute_success:
  "redistributePortionsForMacros
     [ex_meal [ex_entry ''f-chicken'' 100 False, ex_entry ''f-rice'' 200 False]]
     [''f-chicken'' \<mapsto> ex_food 165 31 0 (18 / 5), ''f-rice'' \<mapsto> ex_food 123 (27 / 10) (128 / 5) 1]
     \<lparr> calories = 500, protein = 60, carbs = 50, fat = 6 \<rparr>
     \<lparr> maxPercentChangePerFood = None, iterations = None \<rparr>
   = Some [ex_meal [ex_entry ''f-chicken'' 134 False, ex_entry ''f-rice'' 200 False]]"
  by code_simp

text \<open>
  The same plan (411 kcal): against 200 kcal it is refused on entry; against 211 kcal and
  120 g protein it is admitted, one round raises the chicken to 120 g (444 kcal), and the
  final check refuses it; against 500 kcal and 60 g protein five rounds raise the chicken
  to 134 g (467 kcal) and the plan is returned.
\<close>

theorem redistribute_calorie_guard_witness:
  "\<bar>calories (planTotals [ex_meal [ex_entry ''f-chicken'' 100 False, ex_entry ''f-rice'' 200 False]]
       [''f-chicken'' \<mapsto> ex_food 165 31 0 (18 / 5), ''f-rice'' \<mapsto> ex_food 123 (27 / 10) (128 / 5) 1])
     - 200\<bar> > 200
   \<and> redistributePortionsForMacros
        [ex_meal [ex_entry ''f-chicken'' 100 False, ex_entry ''f-rice'' 200 False]]
        [''f-chicken'' \<mapsto> ex_food 165 31 0 (18 / 5), ''f-rice'' \<mapsto> ex_food 123 (27 / 10) (128 / 5) 1]
        \<lparr> calories = 200, protein = 36, carbs = 51, fat = 6 \<rparr>
        \<lparr> maxPercentChangePerFood = None, iterations = None \<rparr> = None
   \<and> \<not> \<bar>calories (planTotals [ex_meal [ex_entry ''f-chicken'' 100 False, ex_entry ''f-rice'' 200 False]]
       [''f-chicken'' \<mapsto> ex_food 165 31 0 (18 / 5), ''f-rice'' \<mapsto> ex_food 123 (27 / 10) (128 / 5) 1])
     - 211\<bar> > 200
   \<and> redistributePortionsForMacros
        [ex_meal [ex_entry ''f-chicken'' 100 False, ex_entry ''f-rice'' 200 False]]
        [''f-chicken'' \<mapsto> ex_food 165 31 0 (18 / 5), ''f-rice'' \<mapsto> ex_food 123 (27 / 10) (128 / 5) 1]
        \<lparr> calories = 211, protein = 120, carbs = 50, fat = 6 \<rparr>
        \<lparr> maxPercentChangePerFood = None, iterations = Some 1 \<rparr> = None
   \<and> redistributePortionsForMacros
        [ex_meal [ex_entry ''f-chicken'' 100 False, ex_entry ''f-rice'' 200 False]]
        [''f-chicken'' \<mapsto> ex_food 165 31 0 (18 / 5), ''f-rice'' \<mapsto> ex_food 123 (27 / 10) (128 / 5) 1]
        \<lparr> calories = 500, protein = 60, carbs = 50, fat = 6 \<rparr>
        \<lparr> maxPercentChangePerFood = None, iterations = None \<rparr>
       = Some [ex_meal [ex_entry ''f-chicken'' 134 False, ex_entry ''f-rice'' 200 False]]
   \<and> \<bar>calories (planTotals [ex_meal [ex_entry ''f-chicken'' 134 False, ex_entry ''f-rice'' 200 False]]
       [''f-chicken'' \<mapsto> ex_food 165 31 0 (18 / 5), ''f-rice'' \<mapsto> ex_food 123 (27 / 10) (128 / 5) 1])
     - 500\<bar> \<le> 200"
proof -
  let ?m = "[ex_meal [ex_entry ''f-chicken'' 100 False, ex_entry ''f-rice'' 200 False]]"
  let ?m' = "[ex_meal [ex_entry ''f-chicken'' 134 False, ex_entry ''f-rice'' 200 False]]"
  let ?sf = "[''f-chicken'' \<mapsto> ex_food 165 31 0 (18 / 5), ''f-rice'' \<mapsto> ex_food 123 (27 / 10) (128 / 5) 1]"
  let ?t1 = "\<lparr> calories = 200, protein = 36, carbs = 51, fat = 6 \<rparr>"
  let ?t2 = "\<lparr> calories = 211, protein = 120, carbs = 50, fat = 6 \<rparr>"
  let ?t3 = "\<lparr> calories = 500, protein = 60, carbs = 50, fat = 6 \<rparr>"
  let ?o1 = "\<lparr> maxPercentChangePerFood = None, iterations = None \<rparr>"
  let ?o2 = "\<lparr> maxPercentChangePerFood = None, iterations = Some 1 \<rparr>"
  have h1: "\<bar>calories (planTotals ?m ?sf) - calories ?t1\<bar> > 200"
    unfolding ex_plan_totals by simp
  have h3: "\<bar>calories (planTotals (roundsResult ?m ?sf ?t2 ?o2) ?sf) - calories ?t2\<bar> > 200"
    unfolding ex_round_1 ex_plan_totals_120 by simp
  from redistribute_calorie_guard [of ?m ?sf ?t1 ?o1] h1
  have r1: "redistributePortionsForMacros ?m ?sf ?t1 ?o1 = None" by blast
  from redistribute_calorie_guard [of ?m ?sf ?t2 ?o2] h3
  have r2: "redistributePortionsForMacros ?m ?sf ?t2 ?o2 = None" by blast
  have r3: "redistributePortionsForMacros ?m ?sf ?t3 ?o1 = Some ?m'"
    by (rule ex_redistribute_success)
  from redistribute_calorie_guard [of ?m ?sf ?t3 ?o1] r3
  have "\<bar>calories (planTotals ?m' ?sf) - calories ?t3\<bar> \<le> 200" by blast
  then have b3: "\<bar>calories (planTotals ?m' ?sf) - 500\<bar> \<le> 200" by simp
  show ?thesis using r1 r2 r3 b3 unfolding ex_plan_totals by simp
qed

end
